theory Spec2Isabelle
  imports Complex_Main "HOL-Library.Sublist"
begin

section \<open>Conventions of the embedding\<close>

text \<open>
  The sources are \<^verbatim>\<open>scripts/resource_manager.py\<close> and
  \<^verbatim>\<open>scripts/advanced_features.py\<close>.  Python's unbounded \<^verbatim>\<open>int\<close> is
  \<^typ>\<open>int\<close>.  A finite \<^verbatim>\<open>float\<close> is a \<^typ>\<open>real\<close>: arithmetic is exact, the
  rounding of IEEE doubles is not part of the model.  A \<^verbatim>\<open>dict\<close> whose iteration
  order matters is an association list in insertion order, read with \<^const>\<open>map_of\<close>.
  Every \<^verbatim>\<open>raise\<close> is a value \<open>Inl e\<close> of a sum type; mutation of
  \<^verbatim>\<open>self.history\<close> is explicit state passing.  What the code reads from the host
  (sensors, the clock, external tools) is an argument of the model.
\<close>

datatype pyerr =
    AttributeError
  | KeyError
  | IndexError
  | ZeroDivisionError
  | ValueError
  | TypeError
  | OverflowError
  | OSError
  | NoFeasibleQueueError
    \<comment> \<open>the error the specification names; no \<^verbatim>\<open>raise\<close> of the sources produces it\<close>

text \<open>\<^verbatim>\<open>int(x)\<close> on a finite float truncates towards zero.\<close>

definition py_int :: "real \<Rightarrow> int" where
  "py_int x = (if 0 \<le> x then \<lfloor>x\<rfloor> else \<lceil>x\<rceil>)"

section \<open>resource\_manager.py: data model\<close>

record JobRequirements =
  cpus :: int
  memory_gb :: int
  walltime_hours :: real
  storage_gb :: real
  priority :: int
  queue_preference :: "string option"

record ResourceAllocation =
  a_cpus :: int
  a_memory_gb :: int
  a_walltime_hours :: real
  a_queue :: string
  estimated_cost :: real
  estimated_duration_hours :: real
  success_probability :: real

text \<open>One entry of \<^verbatim>\<open>config["hpc_environment"]["queues"]\<close>.  The key
  \<^verbatim>\<open>cost_per_cpu_hour\<close> is read with \<^verbatim>\<open>.get(..., 0.1)\<close>, so it may be absent.\<close>

record queue_config =
  max_jobs :: int
  max_cpu_per_job :: int
  max_memory_per_job :: int
  max_walltime_hours :: real
  cost_per_cpu_hour :: "real option"
  q_priority :: int
  speed_factor :: real

record chunk_strategy =
  max_chunk_size :: int
  storage_threshold :: real
  s_priority :: string

record cost_optimization =
  max_cost_per_job :: real
  cost_weight :: real
  time_weight :: real
  reliability_weight :: real

record config =
  queues :: "(string \<times> queue_config) list"
  chunk_strategies :: "(string \<times> chunk_strategy) list"
  cost_opt :: cost_optimization

text \<open>The \<^verbatim>\<open>default_config\<close> literal of \<^verbatim>\<open>load_config\<close> (the parts the engine reads).\<close>

definition default_queues :: "(string \<times> queue_config) list" where
  "default_queues =
    [(''normal'', \<lparr>max_jobs = 100, max_cpu_per_job = 16, max_memory_per_job = 256,
        max_walltime_hours = 168, cost_per_cpu_hour = Some 0.1, q_priority = 1,
        speed_factor = 1.0\<rparr>),
     (''hiprio'', \<lparr>max_jobs = 50, max_cpu_per_job = 32, max_memory_per_job = 512,
        max_walltime_hours = 72, cost_per_cpu_hour = Some 0.2, q_priority = 2,
        speed_factor = 1.5\<rparr>),
     (''long'', \<lparr>max_jobs = 20, max_cpu_per_job = 8, max_memory_per_job = 128,
        max_walltime_hours = 720, cost_per_cpu_hour = Some 0.05, q_priority = 3,
        speed_factor = 0.7\<rparr>),
     (''gpu'', \<lparr>max_jobs = 10, max_cpu_per_job = 16, max_memory_per_job = 256,
        max_walltime_hours = 48, cost_per_cpu_hour = Some 0.5, q_priority = 4,
        speed_factor = 2.0\<rparr>)]"

definition default_strategies :: "(string \<times> chunk_strategy) list" where
  "default_strategies =
    [(''storage_optimized'', \<lparr>max_chunk_size = 500, storage_threshold = 0.85,
        s_priority = ''storage_efficiency''\<rparr>),
     (''time_optimized'', \<lparr>max_chunk_size = 2000, storage_threshold = 0.95,
        s_priority = ''speed''\<rparr>),
     (''cost_optimized'', \<lparr>max_chunk_size = 1000, storage_threshold = 0.90,
        s_priority = ''cost_efficiency''\<rparr>),
     (''balanced'', \<lparr>max_chunk_size = 1000, storage_threshold = 0.90,
        s_priority = ''balanced''\<rparr>)]"

definition default_config :: config where
  "default_config =
    \<lparr>queues = default_queues, chunk_strategies = default_strategies,
     cost_opt = \<lparr>max_cost_per_job = 100.0, cost_weight = 0.3, time_weight = 0.4,
       reliability_weight = 0.3\<rparr>\<rparr>"

text \<open>The dictionary built by \<^verbatim>\<open>get_current_resources\<close>: the fields the engine reads
  later, and the timestamp.\<close>

record resources =
  r_timestamp :: string
  cpu_count :: int
  cpu_usage_percent :: real
  cpu_available :: int
  storage_free_gb :: real
  storage_usage_percent :: real

text \<open>One entry of \<^verbatim>\<open>history["job_history"]\<close>, as \<^verbatim>\<open>_record_allocation\<close> builds it:
  the requirement snapshot has no \<^verbatim>\<open>queue_preference\<close> key.\<close>

record req_snapshot =
  rs_cpus :: int
  rs_memory_gb :: int
  rs_walltime_hours :: real
  rs_storage_gb :: real
  rs_priority :: int

record job_record =
  j_timestamp :: string
  j_requirements :: req_snapshot
  j_allocation :: ResourceAllocation

record history =
  job_history :: "job_record list"
  resource_usage :: "resources list"

section \<open>History Store\<close>

text \<open>\<^verbatim>\<open>xs.append(x); if len(xs) > 1000: xs = xs[-1000:]\<close>, the two lines both
  recording paths share.\<close>

definition append_capped :: "'a list \<Rightarrow> 'a \<Rightarrow> 'a list" where
  "append_capped xs x =
     (let ys = xs @ [x] in
      if length ys > 1000 then drop (length ys - 1000) ys else ys)"

text \<open>\<^verbatim>\<open>get_current_resources\<close>.  The argument \<open>sample\<close> is what the sensors
  delivered: \<open>None\<close> when one of them raised, in which case the handler logs and
  returns \<^verbatim>\<open>None\<close> before anything is appended.\<close>

definition get_current_resources ::
  "resources option \<Rightarrow> history \<Rightarrow> resources option \<times> history" where
  "get_current_resources sample h =
     (case sample of
        None \<Rightarrow> (None, h)
      | Some r \<Rightarrow> (Some r, h\<lparr>resource_usage := append_capped (resource_usage h) r\<rparr>))"

definition record_allocation ::
  "string \<Rightarrow> JobRequirements \<Rightarrow> ResourceAllocation \<Rightarrow> history \<Rightarrow> history" where
  "record_allocation now requirements allocation h =
     (let rec = \<lparr>j_timestamp = now,
                 j_requirements = \<lparr>rs_cpus = cpus requirements,
                    rs_memory_gb = memory_gb requirements,
                    rs_walltime_hours = walltime_hours requirements,
                    rs_storage_gb = storage_gb requirements,
                    rs_priority = priority requirements\<rparr>,
                 j_allocation = allocation\<rparr>
      in h\<lparr>job_history := append_capped (job_history h) rec\<rparr>)"

section \<open>Queue Catalog, Cost Estimator, Performance Predictor\<close>

text \<open>\<^verbatim>\<open>AdvancedQueueManager.get_available_queues\<close>: the names of the queues whose
  three per-job caps admit the requirement, in the order of the dictionary.  The field
  \<^verbatim>\<open>queue_preference\<close> is not read.\<close>

definition get_available_queues :: "config \<Rightarrow> JobRequirements \<Rightarrow> string list" where
  "get_available_queues cfg requirements =
     map fst (filter (\<lambda>(queue_name, qc).
        cpus requirements \<le> max_cpu_per_job qc \<and>
        memory_gb requirements \<le> max_memory_per_job qc \<and>
        walltime_hours requirements \<le> max_walltime_hours qc) (queues cfg))"

definition get_total_queue_capacity :: "config \<Rightarrow> int" where
  "get_total_queue_capacity cfg = sum_list (map (\<lambda>(queue_name, qc). max_jobs qc) (queues cfg))"

definition estimate_job_cost :: "config \<Rightarrow> int \<Rightarrow> int \<Rightarrow> real \<Rightarrow> string \<Rightarrow> real" where
  "estimate_job_cost cfg cpus' memory_gb' walltime_hours' queue =
     (let cost_per_cpu_hour' =
            (case map_of (queues cfg) queue of
               None \<Rightarrow> 0.1
             | Some qc \<Rightarrow> (case cost_per_cpu_hour qc of None \<Rightarrow> 0.1 | Some c \<Rightarrow> c));
          base_cost = real_of_int cpus' * walltime_hours' * cost_per_cpu_hour';
          memory_factor = 1 + (real_of_int memory_gb' / 128) * 0.1
      in base_cost * memory_factor)"

definition calculate_cost_optimal_chunk_size :: "int \<Rightarrow> int" where
  "calculate_cost_optimal_chunk_size total_samples = min 2000 (max 500 (total_samples div 20))"

text \<open>The two tables are literals of \<^verbatim>\<open>ResourcePredictor\<close>, read with
  \<^verbatim>\<open>.get(queue, default)\<close>; the predictor holds no reference to the configuration.\<close>

definition queue_factors :: "(string \<times> real) list" where
  "queue_factors = [(''normal'', 1.0), (''hiprio'', 0.7), (''long'', 1.5), (''gpu'', 0.5)]"

definition get_queue_speed_factor :: "string \<Rightarrow> real" where
  "get_queue_speed_factor queue = (case map_of queue_factors queue of None \<Rightarrow> 1.0 | Some f \<Rightarrow> f)"

definition reliability_factors :: "(string \<times> real) list" where
  "reliability_factors = [(''normal'', 0.95), (''hiprio'', 0.98), (''long'', 0.90), (''gpu'', 0.85)]"

definition get_queue_reliability :: "string \<Rightarrow> real" where
  "get_queue_reliability queue =
     (case map_of reliability_factors queue of None \<Rightarrow> 0.95 | Some f \<Rightarrow> f)"

text \<open>\<^verbatim>\<open>requirements.storage_gb / (cpus * 0.1)\<close> is a float division: a zero divisor
  raises.\<close>

definition predict_job_duration ::
  "JobRequirements \<Rightarrow> int \<Rightarrow> int \<Rightarrow> string \<Rightarrow> pyerr + real" where
  "predict_job_duration requirements cpus' memory_gb' queue =
     (if real_of_int cpus' * 0.1 = 0 then Inl ZeroDivisionError
      else
        let base_duration = storage_gb requirements / (real_of_int cpus' * 0.1);
            queue_factor = get_queue_speed_factor queue
        in Inr (base_duration * queue_factor))"

definition predict_job_success_probability ::
  "JobRequirements \<Rightarrow> int \<Rightarrow> int \<Rightarrow> string \<Rightarrow> pyerr + real" where
  "predict_job_success_probability requirements cpus' memory_gb' queue =
     (if cpus requirements = 0 then Inl ZeroDivisionError
      else if memory_gb requirements = 0 then Inl ZeroDivisionError
      else
        let cpu_adequacy = min 1.0 (real_of_int cpus' / real_of_int (cpus requirements));
            memory_adequacy = min 1.0 (real_of_int memory_gb' / real_of_int (memory_gb requirements));
            base_probability = (cpu_adequacy + memory_adequacy) / 2;
            queue_reliability = get_queue_reliability queue
        in Inr (base_probability * queue_reliability))"

text \<open>\<^verbatim>\<open>predict_optimal_chunk_size\<close>: \<^verbatim>\<open>int(np.mean(...))\<close> over the last 100 job
  records with a positive storage requirement.\<close>

definition predict_optimal_chunk_size :: "history \<Rightarrow> int \<Rightarrow> string \<Rightarrow> int" where
  "predict_optimal_chunk_size h total_samples strategy =
     (if job_history h = [] then 1000
      else
        let recent_jobs = drop (length (job_history h) - 100) (job_history h);
            similar_jobs = filter (\<lambda>job. rs_storage_gb (j_requirements job) > 0) recent_jobs
        in if similar_jobs \<noteq> [] then
             py_int (real_of_int (sum_list (map (\<lambda>job. a_cpus (j_allocation job) * 100) similar_jobs))
                       / real (length similar_jobs))
           else 1000)"

section \<open>Allocation Scorer\<close>

text \<open>The loop state of \<^verbatim>\<open>_calculate_optimal_allocation\<close> is
  \<open>(best_score, best_allocation)\<close>; \<^verbatim>\<open>float('inf')\<close> and \<^verbatim>\<open>None\<close>, the initial
  values, are both \<open>None\<close>.  A score is a finite real: a job whose cost or duration
  is \<^verbatim>\<open>inf\<close> or \<^verbatim>\<open>nan\<close> as a float (for which \<^verbatim>\<open>score < best_score\<close> is false even
  on the first queue) is outside the model.\<close>

type_synonym best = "real option \<times> ResourceAllocation option"

definition score_below :: "real \<Rightarrow> real option \<Rightarrow> bool" where
  "score_below score best_score = (case best_score of None \<Rightarrow> True | Some b \<Rightarrow> score < b)"

text \<open>One iteration of the loop, for the queue \<open>queue_name\<close>.\<close>

definition queue_step :: "config \<Rightarrow> JobRequirements \<Rightarrow> string \<Rightarrow> best \<Rightarrow> pyerr + best" where
  "queue_step cfg requirements queue_name bst =
     (case map_of (queues cfg) queue_name of
        None \<Rightarrow> Inl KeyError
      | Some qc \<Rightarrow>
          let cpus' = min (cpus requirements) (max_cpu_per_job qc);
              memory_gb' = min (memory_gb requirements) (max_memory_per_job qc);
              walltime_hours' = min (walltime_hours requirements) (max_walltime_hours qc);
              estimated_cost' = estimate_job_cost cfg cpus' memory_gb' walltime_hours' queue_name
          in case predict_job_duration requirements cpus' memory_gb' queue_name of
               Inl e \<Rightarrow> Inl e
             | Inr estimated_duration \<Rightarrow>
                 (case predict_job_success_probability requirements cpus' memory_gb' queue_name of
                    Inl e \<Rightarrow> Inl e
                  | Inr success_prob \<Rightarrow>
                      let score = cost_weight (cost_opt cfg) * estimated_cost'
                                + time_weight (cost_opt cfg) * estimated_duration
                                + reliability_weight (cost_opt cfg) * (1 - success_prob)
                      in if score_below score (fst bst) then
                           Inr (Some score,
                                Some \<lparr>a_cpus = cpus', a_memory_gb = memory_gb',
                                      a_walltime_hours = walltime_hours', a_queue = queue_name,
                                      estimated_cost = estimated_cost',
                                      estimated_duration_hours = estimated_duration,
                                      success_probability = success_prob\<rparr>)
                         else Inr bst))"

fun alloc_loop :: "config \<Rightarrow> JobRequirements \<Rightarrow> string list \<Rightarrow> best \<Rightarrow> pyerr + best" where
  "alloc_loop cfg requirements [] bst = Inr bst"
| "alloc_loop cfg requirements (queue_name # rest) bst =
     (case queue_step cfg requirements queue_name bst of
        Inl e \<Rightarrow> Inl e
      | Inr bst' \<Rightarrow> alloc_loop cfg requirements rest bst')"

definition calculate_optimal_allocation ::
  "config \<Rightarrow> JobRequirements \<Rightarrow> pyerr + ResourceAllocation option" where
  "calculate_optimal_allocation cfg requirements =
     (case alloc_loop cfg requirements (get_available_queues cfg requirements) (None, None) of
        Inl e \<Rightarrow> Inl e
      | Inr bst \<Rightarrow> Inr (snd bst))"

text \<open>\<^verbatim>\<open>_validate_allocation\<close> reads \<^verbatim>\<open>allocation.estimated_cost\<close> first: on
  \<^verbatim>\<open>None\<close> that is an \<^verbatim>\<open>AttributeError\<close>.  \<^verbatim>\<open>//\<close> is floor division, as
  \<open>div\<close> on \<^typ>\<open>int\<close> is.\<close>

definition validate_allocation ::
  "config \<Rightarrow> ResourceAllocation option \<Rightarrow> pyerr + ResourceAllocation" where
  "validate_allocation cfg allocation =
     (case allocation of
        None \<Rightarrow> Inl AttributeError
      | Some a \<Rightarrow>
          if estimated_cost a > max_cost_per_job (cost_opt cfg) then
            let c = max 1 (a_cpus a div 2);
                m = max 8 (a_memory_gb a div 2)
            in Inr (a\<lparr>a_cpus := c, a_memory_gb := m,
                      estimated_cost := estimate_job_cost cfg c m (a_walltime_hours a) (a_queue a)\<rparr>)
          else Inr a)"

text \<open>\<^verbatim>\<open>allocate_resources\<close>.  \<open>sample\<close> and \<open>now\<close> are what the sensors and the
  clock deliver.  An exception leaves the history as the telemetry step wrote it.\<close>

definition allocate_resources ::
  "config \<Rightarrow> resources option \<Rightarrow> string \<Rightarrow> JobRequirements \<Rightarrow> history
     \<Rightarrow> (pyerr + ResourceAllocation) \<times> history" where
  "allocate_resources cfg sample now job_requirements h =
     (let (current_resources, h1) = get_current_resources sample h in
      case calculate_optimal_allocation cfg job_requirements of
        Inl e \<Rightarrow> (Inl e, h1)
      | Inr optimal_allocation \<Rightarrow>
          (case validate_allocation cfg optimal_allocation of
             Inl e \<Rightarrow> (Inl e, h1)
           | Inr validated_allocation \<Rightarrow>
               (Inr validated_allocation,
                record_allocation now job_requirements validated_allocation h1)))"

section \<open>Chunk Sizing Engine\<close>

definition calculate_optimal_chunk_size ::
  "config \<Rightarrow> resources option \<Rightarrow> history \<Rightarrow> int \<Rightarrow> string \<Rightarrow> (pyerr + int) \<times> history" where
  "calculate_optimal_chunk_size cfg sample h total_samples strategy =
     (let (current_resources, h1) = get_current_resources sample h in
      case current_resources of
        None \<Rightarrow>
          (case map_of (chunk_strategies cfg) ''balanced'' of
             None \<Rightarrow> (Inl KeyError, h1)
           | Some b \<Rightarrow> (Inr (max_chunk_size b), h1))
      | Some r \<Rightarrow>
          (case map_of (chunk_strategies cfg) strategy of
             None \<Rightarrow> (Inl KeyError, h1)
           | Some strategy_config \<Rightarrow>
               let available_storage_gb = storage_free_gb r;
                   storage_per_sample_gb = 0.15;
                   max_samples_by_storage =
                     py_int (available_storage_gb * storage_threshold strategy_config
                               / storage_per_sample_gb);
                   queue_capacity = get_total_queue_capacity cfg;
                   max_samples_by_queue = queue_capacity * max_chunk_size strategy_config;
                   available_cpus = cpu_available r;
                   max_samples_by_cpu = available_cpus * 20;
                   optimal_cost_chunk = calculate_cost_optimal_chunk_size total_samples;
                   predicted_optimal = predict_optimal_chunk_size h1 total_samples strategy;
                   optimal_samples =
                     min max_samples_by_storage
                       (min max_samples_by_queue
                         (min max_samples_by_cpu
                           (min optimal_cost_chunk
                             (min predicted_optimal (max_chunk_size strategy_config)))));
                   min_chunk_size = 100
               in (Inr (max optimal_samples min_chunk_size), h1)))"

section \<open>advanced\_features.py: StorageFailurePredictor\<close>

text \<open>A time in hours: a finite float or \<^verbatim>\<open>float('inf')\<close>.\<close>

datatype hours = Finite real | Infinity

text \<open>\<^verbatim>\<open>_calculate_failure_probability\<close>, with the thresholds of
  \<^verbatim>\<open>self.failure_thresholds\<close> (0.95, 0.90, 0.1, 5) read in.  \<open>io_errors\<close> is what
  \<^verbatim>\<open>_get_io_error_rate\<close> returns; it is 0 whenever \<^verbatim>\<open>iostat\<close> is missing or
  unreadable.\<close>

definition calculate_failure_probability :: "int \<Rightarrow> real \<Rightarrow> real \<Rightarrow> real" where
  "calculate_failure_probability io_errors usage growth_rate =
     (let base0 = 0.0;
          base1 = (if usage > 0.95 then base0 + 0.7
                   else if usage > 0.90 then base0 + 0.3 else base0);
          base2 = (if growth_rate > 0.1 then base1 + 0.4 else base1);
          base3 = (if io_errors > 5 then base2 + 0.2 else base2)
      in min base3 1.0)"

definition estimate_time_to_failure :: "real \<Rightarrow> real \<Rightarrow> hours" where
  "estimate_time_to_failure usage growth_rate =
     (if growth_rate \<le> 0 then Infinity
      else
        let remaining_capacity = 1.0 - usage;
            safety_margin = 0.02;
            time_to_failure = (remaining_capacity - safety_margin) / growth_rate
        in Finite (max 0 time_to_failure))"

definition storage_get_risk_level :: "real \<Rightarrow> string" where
  "storage_get_risk_level failure_prob =
     (if failure_prob > 0.8 then ''CRITICAL''
      else if failure_prob > 0.5 then ''HIGH''
      else if failure_prob > 0.2 then ''MODERATE''
      else ''LOW'')"

record disk_health =
  status :: string
  recent_errors :: int
  health_score :: real

record storage_prediction =
  sp_error :: "string option"
  failure_probability :: real
  time_to_failure_hours :: hours
  risk_level :: string
  sp_disk_health :: disk_health

text \<open>The text of an exception, \<^verbatim>\<open>str(e)\<close>, is rendered as the name of its class.\<close>

fun err_str :: "pyerr \<Rightarrow> string" where
  "err_str AttributeError = ''AttributeError''"
| "err_str KeyError = ''KeyError''"
| "err_str IndexError = ''IndexError''"
| "err_str ZeroDivisionError = ''ZeroDivisionError''"
| "err_str ValueError = ''ValueError''"
| "err_str TypeError = ''TypeError''"
| "err_str OverflowError = ''OverflowError''"
| "err_str OSError = ''OSError''"
| "err_str NoFeasibleQueueError = ''NoFeasibleQueueError''"

text \<open>\<^verbatim>\<open>predict_storage_failure\<close> on two finite floats, the types its caller in
  \<^verbatim>\<open>resource_manager.py\<close> passes: then the validation block is the two clamps.
  \<open>health\<close> is the outcome of \<^verbatim>\<open>_check_disk_health\<close>, which lets an exception of
  \<^verbatim>\<open>subprocess.run\<close> other than a timeout or a missing binary escape to the outer
  handler.  The two lists of advice strings (\<^verbatim>\<open>preventive_measures\<close>,
  \<^verbatim>\<open>recommendations\<close>) are left out: total helpers compute them from the probability
  and the time, and nothing reads them.\<close>

definition predict_storage_failure ::
  "int \<Rightarrow> pyerr + disk_health \<Rightarrow> real \<Rightarrow> real \<Rightarrow> storage_prediction" where
  "predict_storage_failure io_errors health current_usage growth_rate =
     (let current_usage' = max 0.0 (min 1.0 current_usage);
          growth_rate' = max 0.0 growth_rate;
          failure_probability' = calculate_failure_probability io_errors current_usage' growth_rate';
          time_to_failure = estimate_time_to_failure current_usage' growth_rate'
      in case health of
           Inr dh \<Rightarrow>
             \<lparr>sp_error = None, failure_probability = failure_probability',
              time_to_failure_hours = time_to_failure,
              risk_level = storage_get_risk_level failure_probability',
              sp_disk_health = dh\<rparr>
         | Inl e \<Rightarrow>
             \<lparr>sp_error = Some (err_str e), failure_probability = 0.0,
              time_to_failure_hours = Finite 0.0, risk_level = ''UNKNOWN'',
              sp_disk_health = \<lparr>status = ''unknown'', recent_errors = 0, health_score = 0.0\<rparr>\<rparr>)"

section \<open>advanced\_features.py: ResourceExhaustionPredictor\<close>

subsection \<open>Python values\<close>

text \<open>The predictor inspects the dynamic type of what it is given, so its input is a
  Python value.  A float is finite or one of the three special values; a dictionary
  has string keys and is an association list in insertion order (its keys distinct).\<close>

datatype pyfloat = Fin real | PosInf | NegInf | NaN

datatype pyval =
    PNone
  | PBool bool
  | PInt int
  | PFloat pyfloat
  | PStr string
  | PList "pyval list"
  | PDict "(string \<times> pyval) list"

text \<open>\<^verbatim>\<open>float(s)\<close> and \<^verbatim>\<open>int(s)\<close> on a string are arguments of the model: \<open>None\<close>
  is the \<^verbatim>\<open>ValueError\<close> of an unparseable string.\<close>

record builtins =
  str_float :: "string \<Rightarrow> pyfloat option"
  str_int :: "string \<Rightarrow> int option"

text \<open>An \<^verbatim>\<open>int\<close> converts to a float, and a quotient of two \<^verbatim>\<open>int\<close>s is a float,
  only when the rounded value is below \<open>2 ^ 1024\<close>; otherwise \<^verbatim>\<open>OverflowError\<close>.\<close>

definition float_limit :: real where
  "float_limit = 2 ^ 1024 - 2 ^ 970"

definition float_of_int :: "int \<Rightarrow> pyerr + real" where
  "float_of_int i =
     (if \<bar>real_of_int i\<bar> < float_limit then Inr (real_of_int i) else Inl OverflowError)"

definition int_truediv :: "int \<Rightarrow> int \<Rightarrow> pyerr + real" where
  "int_truediv a b =
     (if b = 0 then Inl ZeroDivisionError
      else if \<bar>real_of_int a / real_of_int b\<bar> < float_limit
      then Inr (real_of_int a / real_of_int b) else Inl OverflowError)"

definition bool_int :: "bool \<Rightarrow> int" where
  "bool_int b = (if b then 1 else 0)"

definition dict_get :: "(string \<times> pyval) list \<Rightarrow> string \<Rightarrow> pyval \<Rightarrow> pyval" where
  "dict_get d k dflt = (case map_of d k of None \<Rightarrow> dflt | Some v \<Rightarrow> v)"

text \<open>\<^verbatim>\<open>k in v\<close> for a value that the code has tested to be a dictionary.\<close>

fun has_key :: "string \<Rightarrow> pyval \<Rightarrow> bool" where
  "has_key k (PDict d) = (map_of d k \<noteq> None)"
| "has_key k v = False"

subsection \<open>Coercion of the inputs\<close>

text \<open>\<^verbatim>\<open>max(0, min(100, x))\<close> on a float: \<^verbatim>\<open>min\<close> and \<^verbatim>\<open>max\<close> keep their first
  argument unless the second compares below (above) it, so \<^verbatim>\<open>nan\<close> gives 100.\<close>

fun clamp_percent :: "pyfloat \<Rightarrow> real" where
  "clamp_percent (Fin x) = max 0 (min 100 x)"
| "clamp_percent PosInf = 100"
| "clamp_percent NegInf = 0"
| "clamp_percent NaN = 100"

text \<open>The block ``validate and convert usage\_percent'', the same in the three
  predictors; its handler for \<^verbatim>\<open>(ValueError, TypeError)\<close> sets the usage to 0.\<close>

fun usage_of :: "builtins \<Rightarrow> pyval \<Rightarrow> real" where
  "usage_of B (PStr s) =
     (case str_float B s of None \<Rightarrow> 0 | Some f \<Rightarrow> clamp_percent f / 100)"
| "usage_of B (PFloat f) = clamp_percent f / 100"
| "usage_of B (PInt i) = real_of_int (max 0 (min 100 i)) / 100"
| "usage_of B (PBool b) = real_of_int (max 0 (min 100 (bool_int b))) / 100"
| "usage_of B v = real_of_int (max 0 (min 100 0)) / 100"

text \<open>\<^verbatim>\<open>int(x)\<close> on a float: \<^verbatim>\<open>ValueError\<close> on \<^verbatim>\<open>nan\<close>, \<^verbatim>\<open>OverflowError\<close> on an
  infinity.\<close>

fun int_of_float :: "pyfloat \<Rightarrow> pyerr + int" where
  "int_of_float (Fin x) = Inr (py_int x)"
| "int_of_float NaN = Inl ValueError"
| "int_of_float PosInf = Inl OverflowError"
| "int_of_float NegInf = Inl OverflowError"

text \<open>The block ``validate and convert available'' of the CPU predictor.  The inner
  handler turns a \<^verbatim>\<open>ValueError\<close> into 1; an \<^verbatim>\<open>OverflowError\<close> passes it.\<close>

definition catch_value_error :: "pyerr + 'a \<Rightarrow> 'a \<Rightarrow> pyerr + 'a" where
  "catch_value_error c dflt =
     (case c of
        Inl e \<Rightarrow> (if e = ValueError \<or> e = TypeError then Inr dflt else Inl e)
      | Inr v \<Rightarrow> Inr v)"

fun available_raw :: "builtins \<Rightarrow> pyval \<Rightarrow> pyerr + int" where
  "available_raw B (PStr s) =
     (case str_int B s of None \<Rightarrow> Inl ValueError | Some i \<Rightarrow> Inr (max 0 i))"
| "available_raw B (PInt i) = Inr (max 0 i)"
| "available_raw B (PBool b) = Inr (max 0 (bool_int b))"
| "available_raw B (PFloat f) =
     (case int_of_float f of Inl e \<Rightarrow> Inl e | Inr i \<Rightarrow> Inr (max 0 i))"
| "available_raw B v = Inr (max 0 1)"

definition available_of :: "builtins \<Rightarrow> pyval \<Rightarrow> pyerr + int" where
  "available_of B v = catch_value_error (available_raw B v) 1"

text \<open>\<^verbatim>\<open>max(0, float(x))\<close>: the float when it compares above 0, else the \<^verbatim>\<open>int\<close> 0.\<close>

fun max0 :: "pyfloat \<Rightarrow> pyval" where
  "max0 (Fin x) = (if x > 0 then PFloat (Fin x) else PInt 0)"
| "max0 PosInf = PFloat PosInf"
| "max0 NegInf = PInt 0"
| "max0 NaN = PInt 0"

text \<open>The block ``validate and convert available\_gb'' (memory) and ``free\_gb''
  (storage).\<close>

fun gb_raw :: "builtins \<Rightarrow> pyval \<Rightarrow> pyerr + pyval" where
  "gb_raw B (PStr s) =
     (case str_float B s of None \<Rightarrow> Inl ValueError | Some f \<Rightarrow> Inr (max0 f))"
| "gb_raw B (PFloat f) = Inr (max0 f)"
| "gb_raw B (PInt i) =
     (case float_of_int i of Inl e \<Rightarrow> Inl e | Inr x \<Rightarrow> Inr (max0 (Fin x)))"
| "gb_raw B (PBool b) = Inr (max0 (Fin (real_of_int (bool_int b))))"
| "gb_raw B v = Inr (max0 (Fin 1))"

definition gb_of :: "builtins \<Rightarrow> pyval \<Rightarrow> pyerr + pyval" where
  "gb_of B v = catch_value_error (gb_raw B v) (PInt 1)"

subsection \<open>Time estimates and the risk staircase\<close>

definition estimate_cpu_exhaustion_time :: "real \<Rightarrow> int \<Rightarrow> real" where
  "estimate_cpu_exhaustion_time usage available =
     (if usage \<ge> 0.95 then 0.1
      else if available \<le> 0 then 0.5
      else
        let remaining_capacity = 0.95 - usage
        in if remaining_capacity \<le> 0 then 0.1
           else max 0.1 (remaining_capacity * 24))"

definition estimate_memory_exhaustion_time :: "real \<Rightarrow> pyval \<Rightarrow> real" where
  "estimate_memory_exhaustion_time usage available_gb =
     (if usage \<ge> 0.95 then 0.1
      else
        let remaining_capacity = 0.95 - usage
        in if remaining_capacity \<le> 0 then 0.1
           else max 0.1 (remaining_capacity * 48))"

definition estimate_storage_exhaustion_time :: "real \<Rightarrow> pyval \<Rightarrow> real" where
  "estimate_storage_exhaustion_time usage free_gb =
     (if usage \<ge> 0.95 then 0.1
      else
        let remaining_capacity = 0.95 - usage
        in if remaining_capacity \<le> 0 then 0.1
           else max 0.1 (remaining_capacity * 168))"

definition get_risk_level :: "real \<Rightarrow> string" where
  "get_risk_level probability =
     (if probability > 0.8 then ''CRITICAL''
      else if probability > 0.5 then ''HIGH''
      else if probability > 0.2 then ''MODERATE''
      else ''LOW'')"

subsection \<open>The per-resource predictors\<close>

text \<open>Each predictor is a \<^verbatim>\<open>try\<close> block with a handler for \<^verbatim>\<open>Exception\<close>: the body
  is a computation that may raise, the predictor turns a raise into the error
  dictionary.  Result dictionaries list their keys in the order of the source.\<close>

definition cpu_error_result :: "string \<Rightarrow> pyval" where
  "cpu_error_result msg =
     PDict [(''error'', PStr msg), (''exhaustion_probability'', PFloat (Fin 0.0)),
            (''time_to_exhaustion_hours'', PFloat (Fin 0.0)), (''current_usage'', PFloat (Fin 0.0)),
            (''available_cores'', PInt 0), (''risk_level'', PStr ''UNKNOWN'')]"

definition predict_cpu_body :: "builtins \<Rightarrow> (string \<times> pyval) list \<Rightarrow> pyerr + pyval" where
  "predict_cpu_body B cpu_info =
     (let usage_percent = dict_get cpu_info ''usage_percent'' (PInt 0);
          available = dict_get cpu_info ''available'' (PInt 1);
          usage = usage_of B usage_percent
      in case available_of B available of
           Inl e \<Rightarrow> Inl e
         | Inr available' \<Rightarrow>
             let exhaustion_prob =
                   (if usage > 0.95 then 0.8 else if usage > 0.8 then 0.4
                    else if usage > 0.6 then 0.1 else 0.0);
                 time_to_exhaustion = estimate_cpu_exhaustion_time usage available'
             in Inr (PDict [(''exhaustion_probability'', PFloat (Fin exhaustion_prob)),
                            (''time_to_exhaustion_hours'', PFloat (Fin time_to_exhaustion)),
                            (''current_usage'', PFloat (Fin usage)),
                            (''available_cores'', PInt available'),
                            (''risk_level'', PStr (get_risk_level exhaustion_prob))]))"

fun predict_cpu_exhaustion :: "builtins \<Rightarrow> pyval \<Rightarrow> pyval" where
  "predict_cpu_exhaustion B (PDict cpu_info) =
     (case predict_cpu_body B cpu_info of
        Inl e \<Rightarrow> cpu_error_result (err_str e)
      | Inr res \<Rightarrow> res)"
| "predict_cpu_exhaustion B v = cpu_error_result ''Invalid CPU data format''"

definition memory_error_result :: "string \<Rightarrow> pyval" where
  "memory_error_result msg =
     PDict [(''error'', PStr msg), (''exhaustion_probability'', PFloat (Fin 0.0)),
            (''time_to_exhaustion_hours'', PFloat (Fin 0.0)), (''current_usage'', PFloat (Fin 0.0)),
            (''available_gb'', PInt 0), (''risk_level'', PStr ''UNKNOWN'')]"

definition predict_memory_body :: "builtins \<Rightarrow> (string \<times> pyval) list \<Rightarrow> pyerr + pyval" where
  "predict_memory_body B memory_info =
     (let usage_percent = dict_get memory_info ''usage_percent'' (PInt 0);
          available_gb = dict_get memory_info ''available_gb'' (PInt 1);
          usage = usage_of B usage_percent
      in case gb_of B available_gb of
           Inl e \<Rightarrow> Inl e
         | Inr available_gb' \<Rightarrow>
             let exhaustion_prob =
                   (if usage > 0.95 then 0.9 else if usage > 0.8 then 0.5
                    else if usage > 0.6 then 0.2 else 0.0);
                 time_to_exhaustion = estimate_memory_exhaustion_time usage available_gb'
             in Inr (PDict [(''exhaustion_probability'', PFloat (Fin exhaustion_prob)),
                            (''time_to_exhaustion_hours'', PFloat (Fin time_to_exhaustion)),
                            (''current_usage'', PFloat (Fin usage)),
                            (''available_gb'', available_gb'),
                            (''risk_level'', PStr (get_risk_level exhaustion_prob))]))"

fun predict_memory_exhaustion :: "builtins \<Rightarrow> pyval \<Rightarrow> pyval" where
  "predict_memory_exhaustion B (PDict memory_info) =
     (case predict_memory_body B memory_info of
        Inl e \<Rightarrow> memory_error_result (err_str e)
      | Inr res \<Rightarrow> res)"
| "predict_memory_exhaustion B v = memory_error_result ''Invalid memory data format''"

definition storage_error_result :: "string \<Rightarrow> pyval" where
  "storage_error_result msg =
     PDict [(''error'', PStr msg), (''exhaustion_probability'', PFloat (Fin 0.0)),
            (''time_to_exhaustion_hours'', PFloat (Fin 0.0)), (''current_usage'', PFloat (Fin 0.0)),
            (''free_gb'', PInt 0), (''risk_level'', PStr ''UNKNOWN'')]"

definition predict_storage_body :: "builtins \<Rightarrow> (string \<times> pyval) list \<Rightarrow> pyerr + pyval" where
  "predict_storage_body B storage_info =
     (let usage_percent = dict_get storage_info ''usage_percent'' (PInt 0);
          free_gb = dict_get storage_info ''free_gb'' (PInt 1);
          usage = usage_of B usage_percent
      in case gb_of B free_gb of
           Inl e \<Rightarrow> Inl e
         | Inr free_gb' \<Rightarrow>
             let exhaustion_prob =
                   (if usage > 0.95 then 0.95 else if usage > 0.9 then 0.7
                    else if usage > 0.8 then 0.3 else 0.0);
                 time_to_exhaustion = estimate_storage_exhaustion_time usage free_gb'
             in Inr (PDict [(''exhaustion_probability'', PFloat (Fin exhaustion_prob)),
                            (''time_to_exhaustion_hours'', PFloat (Fin time_to_exhaustion)),
                            (''current_usage'', PFloat (Fin usage)),
                            (''free_gb'', free_gb'),
                            (''risk_level'', PStr (get_risk_level exhaustion_prob))]))"

fun predict_storage_exhaustion :: "builtins \<Rightarrow> pyval \<Rightarrow> pyval" where
  "predict_storage_exhaustion B (PDict storage_info) =
     (case predict_storage_body B storage_info of
        Inl e \<Rightarrow> storage_error_result (err_str e)
      | Inr res \<Rightarrow> res)"
| "predict_storage_exhaustion B v = storage_error_result ''Invalid storage data format''"

subsection \<open>The queue predictor\<close>

text \<open>\<^verbatim>\<open>int(x) if isinstance(x, (int, str)) else d\<close>; a \<^verbatim>\<open>bool\<close> is an \<^verbatim>\<open>int\<close>.\<close>

fun to_int_or :: "builtins \<Rightarrow> int \<Rightarrow> pyval \<Rightarrow> pyerr + int" where
  "to_int_or B d (PInt i) = Inr i"
| "to_int_or B d (PBool b) = Inr (bool_int b)"
| "to_int_or B d (PStr s) = (case str_int B s of None \<Rightarrow> Inl ValueError | Some i \<Rightarrow> Inr i)"
| "to_int_or B d v = Inr d"

text \<open>The three conversions share one \<^verbatim>\<open>try\<close>: if any of them raises, all three
  values are reset.\<close>

definition queue_counts :: "builtins \<Rightarrow> (string \<times> pyval) list \<Rightarrow> int \<times> int \<times> int" where
  "queue_counts B queue_data =
     (case to_int_or B 0 (dict_get queue_data ''pending'' (PInt 0)) of
        Inl e \<Rightarrow> (0, 0, 100)
      | Inr pending \<Rightarrow>
          (case to_int_or B 0 (dict_get queue_data ''running'' (PInt 0)) of
             Inl e \<Rightarrow> (0, 0, 100)
           | Inr running \<Rightarrow>
               (case to_int_or B 100 (dict_get queue_data ''max_jobs'' (PInt 100)) of
                  Inl e \<Rightarrow> (0, 0, 100)
                | Inr max_jobs' \<Rightarrow> (pending, running, max_jobs'))))"

definition queue_entry_body :: "builtins \<Rightarrow> (string \<times> pyval) list \<Rightarrow> pyerr + pyval" where
  "queue_entry_body B queue_data =
     (case queue_counts B queue_data of
        (pending0, running0, max_jobs0) \<Rightarrow>
          let pending = max 0 pending0;
              running = max 0 running0;
              max_jobs' = max 1 max_jobs0
          in case int_truediv (running + pending) max_jobs' of
               Inl e \<Rightarrow> Inl e
             | Inr utilization \<Rightarrow>
                 let exhaustion_prob =
                       (if utilization > 0.9 then 0.8 else if utilization > 0.8 then 0.4
                        else if utilization > 0.6 then 0.1 else 0.0)
                 in Inr (PDict [(''exhaustion_probability'', PFloat (Fin exhaustion_prob)),
                                (''utilization'', PFloat (Fin utilization)),
                                (''pending_jobs'', PInt pending),
                                (''running_jobs'', PInt running),
                                (''max_jobs'', PInt max_jobs'),
                                (''risk_level'', PStr (get_risk_level exhaustion_prob))]))"

fun queue_entry :: "builtins \<Rightarrow> pyval \<Rightarrow> pyval" where
  "queue_entry B (PDict queue_data) =
     (case queue_entry_body B queue_data of
        Inl e \<Rightarrow> PDict [(''error'', PStr (err_str e))]
      | Inr res \<Rightarrow> res)"
| "queue_entry B v = PDict [(''error'', PStr ''Invalid queue data'')]"

fun predict_queue_exhaustion :: "builtins \<Rightarrow> pyval \<Rightarrow> pyval" where
  "predict_queue_exhaustion B (PDict queue_info) =
     PDict (map (\<lambda>(queue_name, queue_data). (queue_name, queue_entry B queue_data)) queue_info)"
| "predict_queue_exhaustion B v = PDict [(''error'', PStr ''Invalid queue data format'')]"

subsection \<open>Overall risk\<close>

text \<open>The risk levels one prediction contributes: none when it has an \<^verbatim>\<open>error\<close> key,
  its \<^verbatim>\<open>risk_level\<close> when it has one, else the \<^verbatim>\<open>risk_level\<close> of each of its values
  that is a dictionary with that key.\<close>

fun entry_risk :: "pyval \<Rightarrow> pyval list" where
  "entry_risk (PDict q) = (case map_of q ''risk_level'' of None \<Rightarrow> [] | Some r \<Rightarrow> [r])"
| "entry_risk v = []"

fun risks_of_prediction :: "pyval \<Rightarrow> pyval list" where
  "risks_of_prediction (PDict prediction) =
     (if map_of prediction ''error'' \<noteq> None then []
      else case map_of prediction ''risk_level'' of
             Some r \<Rightarrow> [r]
           | None \<Rightarrow> concat (map (\<lambda>(k, q). entry_risk q) prediction))"
| "risks_of_prediction v = []"

definition risk_scores :: "(string \<times> int) list" where
  "risk_scores = [(''LOW'', 1), (''MODERATE'', 2), (''HIGH'', 3), (''CRITICAL'', 4), (''UNKNOWN'', 0)]"

text \<open>\<^verbatim>\<open>risk_scores.get(risk, 1)\<close> hashes its key: a dictionary or a list raises
  \<^verbatim>\<open>TypeError\<close>.\<close>

fun risk_score :: "pyval \<Rightarrow> pyerr + int" where
  "risk_score (PStr s) = Inr (case map_of risk_scores s of None \<Rightarrow> 1 | Some n \<Rightarrow> n)"
| "risk_score (PDict d) = Inl TypeError"
| "risk_score (PList l) = Inl TypeError"
| "risk_score v = Inr 1"

fun score_all :: "pyval list \<Rightarrow> pyerr + int list" where
  "score_all [] = Inr []"
| "score_all (r # rs) =
     (case risk_score r of
        Inl e \<Rightarrow> Inl e
      | Inr n \<Rightarrow> (case score_all rs of Inl e \<Rightarrow> Inl e | Inr ns \<Rightarrow> Inr (n # ns)))"

definition level_of_score :: "int \<Rightarrow> pyerr + string" where
  "level_of_score n =
     (case filter (\<lambda>(k, v). v = n) risk_scores of
        [] \<Rightarrow> Inl IndexError
      | (k, v) # rest \<Rightarrow> Inr k)"

definition overall_result :: "string \<Rightarrow> pyval list \<Rightarrow> pyval" where
  "overall_result level risks =
     PDict [(''overall_risk_level'', PStr level), (''resource_risks'', PList risks),
            (''critical_resources'',
               PList (filter (\<lambda>r. r = PStr ''HIGH'' \<or> r = PStr ''CRITICAL'') risks))]"

definition assess_body :: "(string \<times> pyval) list \<Rightarrow> pyerr + pyval" where
  "assess_body predictions =
     (let risks = concat (map (\<lambda>(resource_type, prediction). risks_of_prediction prediction)
                            predictions)
      in if risks = [] then Inr (overall_result ''UNKNOWN'' risks)
         else case score_all risks of
                Inl e \<Rightarrow> Inl e
              | Inr [] \<Rightarrow> Inl ValueError
              | Inr (n # ns) \<Rightarrow>
                  (case level_of_score (fold max ns n) of
                     Inl e \<Rightarrow> Inl e
                   | Inr level \<Rightarrow> Inr (overall_result level risks)))"

definition assess_overall_risk :: "(string \<times> pyval) list \<Rightarrow> pyval" where
  "assess_overall_risk predictions =
     (case assess_body predictions of
        Inl e \<Rightarrow> overall_result ''UNKNOWN'' []
      | Inr res \<Rightarrow> res)"

subsection \<open>predict\_resource\_exhaustion\<close>

text \<open>\<^verbatim>\<open>if k in current_resources and current_resources[k] is not None\<close>.\<close>

definition predict_field ::
  "(string \<times> pyval) list \<Rightarrow> string \<Rightarrow> (pyval \<Rightarrow> pyval) \<Rightarrow> string \<Rightarrow> pyval" where
  "predict_field current_resources k predictor msg =
     (case map_of current_resources k of
        None \<Rightarrow> PDict [(''error'', PStr msg)]
      | Some PNone \<Rightarrow> PDict [(''error'', PStr msg)]
      | Some v \<Rightarrow> predictor v)"

definition no_data_result :: "string \<Rightarrow> pyval" where
  "no_data_result msg =
     PDict [(''error'', PStr msg), (''predictions'', PDict []),
            (''overall_risk'', PDict [(''overall_risk_level'', PStr ''UNKNOWN'')])]"

text \<open>The result holds \<^verbatim>\<open>predictions\<close> and \<^verbatim>\<open>overall_risk\<close>.  The advisory lists
  \<^verbatim>\<open>recommendations\<close> and \<^verbatim>\<open>optimization_suggestions\<close> are left out: the helpers
  that build them have handlers of their own and change nothing else.  No step of the
  body can raise past its own handler, so the outer handler is never entered.\<close>

fun predict_resource_exhaustion :: "builtins \<Rightarrow> pyval \<Rightarrow> pyval" where
  "predict_resource_exhaustion B PNone = no_data_result ''No resource data provided''"
| "predict_resource_exhaustion B (PDict current_resources) =
     (let predictions =
            [(''cpu'', predict_field current_resources ''cpu'' (predict_cpu_exhaustion B)
                         ''CPU data not available''),
             (''memory'', predict_field current_resources ''memory'' (predict_memory_exhaustion B)
                            ''Memory data not available''),
             (''storage'', predict_field current_resources ''storage'' (predict_storage_exhaustion B)
                             ''Storage data not available''),
             (''queues'', predict_field current_resources ''lsf'' (predict_queue_exhaustion B)
                            ''Queue data not available'')]
      in PDict [(''predictions'', PDict predictions),
                (''overall_risk'', assess_overall_risk predictions)])"
| "predict_resource_exhaustion B v = no_data_result ''Invalid resource data format''"

text \<open>Reading a value along a path of keys.\<close>

fun py_path :: "pyval \<Rightarrow> string list \<Rightarrow> pyval option" where
  "py_path v [] = Some v"
| "py_path (PDict d) (k # ks) = (case map_of d k of None \<Rightarrow> None | Some x \<Rightarrow> py_path x ks)"
| "py_path v (k # ks) = None"

text \<open>Builtins that parse decimal digits are not needed for the examples: these reject
  every string.\<close>

definition no_parse :: builtins where
  "no_parse = \<lparr>str_float = (\<lambda>s. None), str_int = (\<lambda>s. None)\<rparr>"

text \<open>The dictionary of \<^verbatim>\<open>main()\<close>'s \<^verbatim>\<open>--test-resource-prediction\<close>.\<close>

definition test_resources :: pyval where
  "test_resources =
     PDict [(''cpu'', PDict [(''usage_percent'', PInt 55), (''available'', PInt 57)]),
            (''memory'', PDict [(''usage_percent'', PFloat (Fin 4.4)), (''available_gb'', PInt 1925)]),
            (''storage'', PDict [(''usage_percent'', PFloat (Fin 99.6)), (''free_gb'', PInt 2061)]),
            (''lsf'', PDict [(''normal'', PDict [(''pending'', PInt 50), (''running'', PInt 0),
                                                 (''max_jobs'', PInt 100)])])]"

text \<open>Malformed input: no CPU field, a string for memory, a \<^verbatim>\<open>None\<close> queue entry.\<close>

definition malformed_fields :: "(string \<times> pyval) list" where
  "malformed_fields =
     [(''memory'', PStr ''full''),
      (''storage'', PDict [(''usage_percent'', PStr ''ninety''), (''free_gb'', PNone)]),
      (''lsf'', PDict [(''normal'', PNone),
                       (''long'', PDict [(''pending'', PStr ''many'')])])]"

definition malformed_resources :: pyval where
  "malformed_resources = PDict malformed_fields"

definition healthy_disk :: disk_health where
  "healthy_disk = \<lparr>status = ''healthy'', recent_errors = 0, health_score = 1.0\<rparr>"

section \<open>Predicates of the claims and concrete inputs\<close>

text \<open>An allocation respects the per-job caps of the queue it names.\<close>

definition within_caps :: "config \<Rightarrow> ResourceAllocation \<Rightarrow> bool" where
  "within_caps cfg a =
     (case map_of (queues cfg) (a_queue a) of
        None \<Rightarrow> False
      | Some qc \<Rightarrow> a_cpus a \<le> max_cpu_per_job qc
                  \<and> a_memory_gb a \<le> max_memory_per_job qc
                  \<and> a_walltime_hours a \<le> max_walltime_hours qc)"

definition best_ok :: "config \<Rightarrow> best \<Rightarrow> bool" where
  "best_ok cfg bst = (case snd bst of None \<Rightarrow> True | Some a \<Rightarrow> within_caps cfg a)"

text \<open>The duration formula in the words of the specification, with the
  \<^verbatim>\<open>speed_factor\<close> of the queue's profile in the configuration.  It is compared with
  \<^const>\<open>predict_job_duration\<close>, which is the code.\<close>

definition spec_predict_duration ::
  "config \<Rightarrow> JobRequirements \<Rightarrow> int \<Rightarrow> string \<Rightarrow> real option" where
  "spec_predict_duration cfg r c q =
     (case map_of (queues cfg) q of
        None \<Rightarrow> None
      | Some qc \<Rightarrow> Some (storage_gb r / (real_of_int c * 0.1) * speed_factor qc))"

definition strategy_max :: "config \<Rightarrow> string \<Rightarrow> int option" where
  "strategy_max cfg strategy = map_option max_chunk_size (map_of (chunk_strategies cfg) strategy)"

text \<open>The shapes a prediction can have.  \<open>error_only\<close>: the dictionary holds the key
  \<^verbatim>\<open>error\<close> and nothing else.  \<open>unknown_with_error\<close>: it holds \<^verbatim>\<open>error\<close> and its
  \<^verbatim>\<open>risk_level\<close> is UNKNOWN.  \<open>graded\<close>: it holds no \<^verbatim>\<open>error\<close> and its
  \<^verbatim>\<open>risk_level\<close> is one of the four levels of the staircase.\<close>

definition risk_levels :: "string list" where
  "risk_levels = [''LOW'', ''MODERATE'', ''HIGH'', ''CRITICAL'']"

definition error_only :: "pyval \<Rightarrow> bool" where
  "error_only p = (case p of PDict [(k, PStr msg)] \<Rightarrow> k = ''error'' | _ \<Rightarrow> False)"

definition unknown_with_error :: "pyval \<Rightarrow> bool" where
  "unknown_with_error p =
     (has_key ''error'' p \<and> py_path p [''risk_level''] = Some (PStr ''UNKNOWN''))"

definition graded :: "pyval \<Rightarrow> bool" where
  "graded p =
     (\<not> has_key ''error'' p \<and>
      (case py_path p [''risk_level''] of
         Some (PStr s) \<Rightarrow> s \<in> set risk_levels
       | _ \<Rightarrow> False))"

text \<open>The inputs a predictor cannot use.  For the CPU predictor: a value that is not a
  dictionary, or one whose \<^verbatim>\<open>available\<close> is an infinite float (\<^verbatim>\<open>int\<close> of it
  overflows).  For the memory and storage predictors: a value that is not a dictionary,
  or one whose \<^verbatim>\<open>available_gb\<close> (\<^verbatim>\<open>free_gb\<close>) is an \<^verbatim>\<open>int\<close> beyond the range of a
  float.  For a queue entry: a value that is not a dictionary, or one whose utilisation
  is beyond the range of a float.\<close>

fun cpu_unusable :: "pyval \<Rightarrow> bool" where
  "cpu_unusable (PDict cpu_info) =
     (dict_get cpu_info ''available'' (PInt 1) = PFloat PosInf
      \<or> dict_get cpu_info ''available'' (PInt 1) = PFloat NegInf)"
| "cpu_unusable v = True"

fun gb_unusable :: "string \<Rightarrow> pyval \<Rightarrow> bool" where
  "gb_unusable k (PDict info) =
     (case dict_get info k (PInt 1) of
        PInt i \<Rightarrow> \<not> \<bar>real_of_int i\<bar> < float_limit
      | _ \<Rightarrow> False)"
| "gb_unusable k v = True"

fun queue_unusable :: "builtins \<Rightarrow> pyval \<Rightarrow> bool" where
  "queue_unusable B (PDict queue_data) =
     (case queue_counts B queue_data of
        (pending, running, max_jobs') \<Rightarrow>
          \<not> \<bar>real_of_int (max 0 running + max 0 pending) / real_of_int (max 1 max_jobs')\<bar>
              < float_limit)"
| "queue_unusable B v = True"

text \<open>What the claim says of the prediction \<open>pred\<close> made for the input field
  \<open>field\<close>: it exists; it is \<open>error_only\<close> when the field is absent or \<^verbatim>\<open>None\<close>,
  \<open>unknown_with_error\<close> when the field is unusable, and \<open>graded\<close> otherwise.\<close>

definition field_prediction_ok :: "(pyval \<Rightarrow> bool) \<Rightarrow> pyval option \<Rightarrow> pyval option \<Rightarrow> bool" where
  "field_prediction_ok unusable field pred =
     (case pred of
        None \<Rightarrow> False
      | Some p \<Rightarrow>
          (case field of
             None \<Rightarrow> error_only p
           | Some PNone \<Rightarrow> error_only p
           | Some x \<Rightarrow> if unusable x then unknown_with_error p else graded p))"

text \<open>The same for the queue table: one entry per queue, in order, \<open>error_only\<close> for
  an unusable entry and \<open>graded\<close> otherwise; a lone \<^verbatim>\<open>error\<close> when the table is
  absent, \<^verbatim>\<open>None\<close> or not a dictionary.\<close>

definition entry_ok :: "builtins \<Rightarrow> pyval \<Rightarrow> pyval \<Rightarrow> bool" where
  "entry_ok B x e = (if queue_unusable B x then error_only e else graded e)"

definition queue_prediction_ok :: "builtins \<Rightarrow> pyval option \<Rightarrow> pyval option \<Rightarrow> bool" where
  "queue_prediction_ok B field pred =
     (case pred of
        Some (PDict q) \<Rightarrow>
          (case field of
             Some (PDict queue_info) \<Rightarrow>
               map fst q = map fst queue_info
               \<and> list_all2 (entry_ok B) (map snd queue_info) (map snd q)
           | _ \<Rightarrow> error_only (PDict q))
      | _ \<Rightarrow> False)"

definition prediction_has_error :: "pyval \<Rightarrow> string \<Rightarrow> bool" where
  "prediction_has_error res k =
     (case py_path res [''predictions'', k] of
        Some p \<Rightarrow> has_key ''error'' p
      | None \<Rightarrow> False)"


definition empty_history :: history where
  "empty_history = \<lparr>job_history = [], resource_usage = []\<rparr>"

text \<open>The requirement of \<^verbatim>\<open>main()\<close>'s \<^verbatim>\<open>--test-allocation\<close>, and what the default
  configuration allocates for it.\<close>

definition sample_job :: JobRequirements where
  "sample_job = \<lparr>cpus = 8, memory_gb = 128, walltime_hours = 72, storage_gb = 5.0,
     priority = 1, queue_preference = None\<rparr>"

definition sample_allocation :: ResourceAllocation where
  "sample_allocation = \<lparr>a_cpus = 8, a_memory_gb = 128, a_walltime_hours = 72,
     a_queue = ''long'', estimated_cost = 792 / 25,
     estimated_duration_hours = 75 / 8, success_probability = 9 / 10\<rparr>"

text \<open>64 cpus exceed the cpu cap of every default queue.\<close>

definition oversized_job :: JobRequirements where
  "oversized_job = \<lparr>cpus = 64, memory_gb = 128, walltime_hours = 72, storage_gb = 5,
     priority = 1, queue_preference = None\<rparr>"

text \<open>What \<^verbatim>\<open>load_config\<close> builds from a configuration file that declares one more
  queue, with a memory cap of 4 GB, below the floor of the corrective pass: the queue of
  the file, then the default queues that \<^verbatim>\<open>_merge_config\<close> adds.  The job fits that
  queue only and costs more than the ceiling of 100.\<close>

definition site_config :: config where
  "site_config = default_config\<lparr>queues :=
     (''small'', \<lparr>max_jobs = 10, max_cpu_per_job = 64, max_memory_per_job = 4,
        max_walltime_hours = 168, cost_per_cpu_hour = Some 1.0, q_priority = 5,
        speed_factor = 1.0\<rparr>) # default_queues\<rparr>"

definition small_job :: JobRequirements where
  "small_job = \<lparr>cpus = 64, memory_gb = 4, walltime_hours = 10, storage_gb = 1,
     priority = 1, queue_preference = None\<rparr>"

text \<open>A telemetry sample with ample free storage and available cpus.\<close>

definition ample :: resources where
  "ample = \<lparr>r_timestamp = ''2024-01-01T00:00:00'', cpu_count = 64, cpu_usage_percent = 10,
     cpu_available = 57, storage_free_gb = 2061, storage_usage_percent = 50\<rparr>"

section \<open>Properties of the History Store\<close>

lemma append_capped_length: "length (append_capped xs x) \<le> 1000"
  by (simp add: append_capped_def Let_def)

lemma append_capped_drop:
  "append_capped xs x = drop (Suc (length xs) - 1000) (xs @ [x])"
  by (simp add: append_capped_def Let_def)

lemma append_capped_suffix: "suffix (append_capped xs x) (xs @ [x])"
  unfolding append_capped_drop by (rule suffix_drop)

lemma append_capped_last: "last (append_capped xs x) = x"
  by (simp add: append_capped_def Let_def)

text \<open>
  Claim C9.  After a telemetry snapshot or an allocation record is recorded, the list
  written holds at most 1000 entries; it is the old list with the new entry at its end,
  cut from the front (the oldest entries go first, the order of the rest is kept, the
  new entry is the last one); and the other history list is untouched.
\<close>

theorem history_cap_fifo:
  "length (resource_usage (snd (get_current_resources (Some r) h))) \<le> 1000
   \<and> resource_usage (snd (get_current_resources (Some r) h))
       = drop (Suc (length (resource_usage h)) - 1000) (resource_usage h @ [r])
   \<and> suffix (resource_usage (snd (get_current_resources (Some r) h))) (resource_usage h @ [r])
   \<and> last (resource_usage (snd (get_current_resources (Some r) h))) = r
   \<and> job_history (snd (get_current_resources (Some r) h)) = job_history h
   \<and> length (job_history (record_allocation now q a h)) \<le> 1000
   \<and> (let rec = last (job_history (record_allocation now q a h)) in
        job_history (record_allocation now q a h)
          = drop (Suc (length (job_history h)) - 1000) (job_history h @ [rec])
        \<and> suffix (job_history (record_allocation now q a h)) (job_history h @ [rec])
        \<and> j_allocation rec = a \<and> j_timestamp rec = now)
   \<and> resource_usage (record_allocation now q a h) = resource_usage h"
proof -
  have tel: "resource_usage (snd (get_current_resources (Some r) h))
               = append_capped (resource_usage h) r"
    by (simp add: get_current_resources_def)
  have keep: "job_history (snd (get_current_resources (Some r) h)) = job_history h"
    by (simp add: get_current_resources_def)
  obtain rec where rec: "job_history (record_allocation now q a h)
                           = append_capped (job_history h) rec"
    and rec_a: "j_allocation rec = a" and rec_t: "j_timestamp rec = now"
    by (simp add: record_allocation_def Let_def)
  have other: "resource_usage (record_allocation now q a h) = resource_usage h"
    by (simp add: record_allocation_def Let_def)
  have lastrec: "last (job_history (record_allocation now q a h)) = rec"
    by (simp add: rec append_capped_last)
  show ?thesis
    unfolding Let_def lastrec
    unfolding tel rec keep other
    using append_capped_length append_capped_drop append_capped_suffix append_capped_last
      rec_a rec_t
    by metis
qed

section \<open>Properties of the Allocation Scorer\<close>

subsection \<open>The queue preference is never read\<close>

lemma duration_pref:
  "predict_job_duration (r\<lparr>queue_preference := p\<rparr>) c m q = predict_job_duration r c m q"
  by (simp add: predict_job_duration_def)

lemma success_pref:
  "predict_job_success_probability (r\<lparr>queue_preference := p\<rparr>) c m q
     = predict_job_success_probability r c m q"
  by (simp add: predict_job_success_probability_def)

lemma queue_step_pref:
  "queue_step cfg (r\<lparr>queue_preference := p\<rparr>) q bst = queue_step cfg r q bst"
  by (simp add: queue_step_def duration_pref success_pref cong: option.case_cong sum.case_cong)

lemma alloc_loop_pref:
  "alloc_loop cfg (r\<lparr>queue_preference := p\<rparr>) qs bst = alloc_loop cfg r qs bst"
  by (induction qs arbitrary: bst) (simp_all add: queue_step_pref cong: sum.case_cong)

lemma available_pref:
  "get_available_queues cfg (r\<lparr>queue_preference := p\<rparr>) = get_available_queues cfg r"
  by (simp add: get_available_queues_def)

lemma record_allocation_pref:
  "record_allocation now (r\<lparr>queue_preference := p\<rparr>) a h = record_allocation now r a h"
  by (simp add: record_allocation_def)

text \<open>
  Claim C10.  Two requirements that differ only in \<^verbatim>\<open>queue_preference\<close> get the same
  outcome from \<^verbatim>\<open>allocate_resources\<close>: the same allocation or the same error, and
  the same history afterwards.  Any requirement that agrees with \<open>r\<close> on the other
  fields is \<open>r\<lparr>queue_preference := p\<rparr>\<close> for some \<open>p\<close>.
\<close>

theorem preference_ignored:
  "allocate_resources cfg sample now (r\<lparr>queue_preference := p\<rparr>) h
     = allocate_resources cfg sample now r h"
  by (simp add: allocate_resources_def calculate_optimal_allocation_def alloc_loop_pref
      available_pref record_allocation_pref cong: sum.case_cong prod.case_cong)

subsection \<open>No feasible queue\<close>

text \<open>When no queue admits the requirement the loop body never runs,
  \<^verbatim>\<open>best_allocation\<close> stays \<^verbatim>\<open>None\<close>, and \<^verbatim>\<open>_validate_allocation\<close> raises on
  \<^verbatim>\<open>allocation.estimated_cost\<close>.\<close>

lemma empty_feasible_attribute_error:
  "get_available_queues cfg r = [] \<Longrightarrow>
     fst (allocate_resources cfg sample now r h) = Inl AttributeError"
  by (simp add: allocate_resources_def calculate_optimal_allocation_def validate_allocation_def
      split: prod.splits)

text \<open>
  Claim C3, as the code has it.  When no configured queue admits the requirement,
  \<^verbatim>\<open>allocate_resources\<close> returns no value: an exception reaches the caller.  It is
  not a \<^verbatim>\<open>NoFeasibleQueueError\<close>, which the sources do not define.
\<close>

theorem no_feasible_queue_fails:
  "get_available_queues cfg r = [] \<Longrightarrow>
     \<exists>e. fst (allocate_resources cfg sample now r h) = Inl e \<and> e \<noteq> NoFeasibleQueueError"
  by (simp add: empty_feasible_attribute_error)

theorem no_feasible_queue_fails_witness:
  "get_available_queues default_config oversized_job = []
   \<and> (\<exists>e. fst (allocate_resources default_config None ''t'' oversized_job empty_history) = Inl e
          \<and> e \<noteq> NoFeasibleQueueError)"
proof -
  have e: "get_available_queues default_config oversized_job = []" by code_simp
  show ?thesis using e no_feasible_queue_fails [OF e] by simp
qed

theorem no_feasible_queue_counterexample:
  "get_available_queues default_config oversized_job = []
   \<and> fst (allocate_resources default_config None ''t'' oversized_job empty_history)
       = Inl AttributeError"
  by code_simp

subsection \<open>Per-job caps\<close>

lemma queue_step_caps:
  assumes "queue_step cfg r q bst = Inr bst'" and "best_ok cfg bst"
  shows "best_ok cfg bst'"
  using assms
  by (auto simp: queue_step_def best_ok_def within_caps_def Let_def
      split: option.splits sum.splits if_splits)

lemma alloc_loop_caps:
  "alloc_loop cfg r qs bst = Inr bst' \<Longrightarrow> best_ok cfg bst \<Longrightarrow> best_ok cfg bst'"
proof (induction qs arbitrary: bst)
  case Nil
  then show ?case by simp
next
  case (Cons q qs)
  from Cons.prems(1) obtain mid where
    step: "queue_step cfg r q bst = Inr mid" and rest: "alloc_loop cfg r qs mid = Inr bst'"
    by (auto split: sum.splits)
  from queue_step_caps [OF step Cons.prems(2)] have "best_ok cfg mid" .
  with Cons.IH [OF rest] show ?case .
qed

lemma calculate_optimal_allocation_caps:
  assumes c: "calculate_optimal_allocation cfg r = Inr (Some a)"
  shows "within_caps cfg a"
proof -
  from c obtain bst where
    l: "alloc_loop cfg r (get_available_queues cfg r) (None, None) = Inr bst"
    and s: "snd bst = Some a"
    by (auto simp: calculate_optimal_allocation_def split: sum.splits)
  have "best_ok cfg (None, None)" by (simp add: best_ok_def)
  from alloc_loop_caps [OF l this] s show ?thesis by (simp add: best_ok_def)
qed

text \<open>The corrective pass keeps the queue and the walltime; it can raise the cpus to 1
  and the memory to 8, and otherwise only lowers them.\<close>

lemma validate_allocation_caps:
  assumes "validate_allocation cfg opt = Inr v"
  shows "\<exists>a. opt = Some a \<and> a_queue v = a_queue a \<and> a_walltime_hours v = a_walltime_hours a
             \<and> a_cpus v \<le> max 1 (a_cpus a) \<and> a_memory_gb v \<le> max 8 (a_memory_gb a)"
  using assms
  by (cases opt) (auto simp: validate_allocation_def Let_def split: if_splits)

lemma allocation_shape:
  assumes "fst (allocate_resources cfg sample now r h) = Inr v"
  shows "\<exists>(a::ResourceAllocation) qc. map_of (queues cfg) (a_queue v) = Some qc
              \<and> a_walltime_hours v \<le> max_walltime_hours qc
              \<and> a_cpus v \<le> max 1 (a_cpus a) \<and> a_cpus a \<le> max_cpu_per_job qc
              \<and> a_memory_gb v \<le> max 8 (a_memory_gb a)
              \<and> a_memory_gb a \<le> max_memory_per_job qc"
proof -
  from assms obtain opt where
    c: "calculate_optimal_allocation cfg r = Inr opt" and
    v: "validate_allocation cfg opt = Inr v"
    by (auto simp: allocate_resources_def split: prod.splits sum.splits)
  from validate_allocation_caps [OF v] obtain a where
    a: "opt = Some a" "a_queue v = a_queue a" "a_walltime_hours v = a_walltime_hours a"
       "a_cpus v \<le> max 1 (a_cpus a)" "a_memory_gb v \<le> max 8 (a_memory_gb a)"
    by blast
  from calculate_optimal_allocation_caps c a(1) have "within_caps cfg a" by simp
  then obtain qc where qc: "map_of (queues cfg) (a_queue a) = Some qc"
    "a_cpus a \<le> max_cpu_per_job qc" "a_memory_gb a \<le> max_memory_per_job qc"
    "a_walltime_hours a \<le> max_walltime_hours qc"
    by (auto simp: within_caps_def split: option.splits)
  show ?thesis
    using qc a(2-5) by (intro exI [of _ a] exI [of _ qc]) auto
qed

text \<open>
  Claim C2, as the code has it.  An allocation that \<^verbatim>\<open>allocate_resources\<close> returns
  names a configured queue and its walltime is within that queue's cap; its cpus are
  within the cap when the cap is at least 1, and its memory is within the cap when the
  cap is at least 8, the floors of the corrective pass.
\<close>

theorem allocation_within_caps:
  assumes "fst (allocate_resources cfg sample now r h) = Inr v"
  shows "\<exists>qc. map_of (queues cfg) (a_queue v) = Some qc
              \<and> a_walltime_hours v \<le> max_walltime_hours qc
              \<and> (1 \<le> max_cpu_per_job qc \<longrightarrow> a_cpus v \<le> max_cpu_per_job qc)
              \<and> (8 \<le> max_memory_per_job qc \<longrightarrow> a_memory_gb v \<le> max_memory_per_job qc)"
proof -
  from allocation_shape [OF assms] obtain a :: ResourceAllocation and qc where
    q: "map_of (queues cfg) (a_queue v) = Some qc"
    and w: "a_walltime_hours v \<le> max_walltime_hours qc"
    and c: "a_cpus v \<le> max 1 (a_cpus a)" "a_cpus a \<le> max_cpu_per_job qc"
    and m: "a_memory_gb v \<le> max 8 (a_memory_gb a)" "a_memory_gb a \<le> max_memory_per_job qc"
    by blast
  from c have "1 \<le> max_cpu_per_job qc \<longrightarrow> a_cpus v \<le> max_cpu_per_job qc" by auto
  moreover from m have "8 \<le> max_memory_per_job qc \<longrightarrow> a_memory_gb v \<le> max_memory_per_job qc"
    by auto
  ultimately show ?thesis using q w by blast
qed

text \<open>Every default queue has a cpu cap of at least 1 and a memory cap of at least 8, so
  under the default configuration every returned allocation is within all three caps.\<close>

lemma default_queue_floors:
  "map_of (queues default_config) q = Some qc \<Longrightarrow>
     1 \<le> max_cpu_per_job qc \<and> 8 \<le> max_memory_per_job qc"
  by (auto simp: default_config_def default_queues_def split: if_splits)

lemma default_allocation_within_caps:
  assumes "fst (allocate_resources default_config sample now r h) = Inr v"
  shows "within_caps default_config v"
proof -
  from allocation_shape [OF assms] obtain a :: ResourceAllocation and qc where
    q: "map_of (queues default_config) (a_queue v) = Some qc"
    and w: "a_walltime_hours v \<le> max_walltime_hours qc"
    and c: "a_cpus v \<le> max 1 (a_cpus a)" "a_cpus a \<le> max_cpu_per_job qc"
    and m: "a_memory_gb v \<le> max 8 (a_memory_gb a)" "a_memory_gb a \<le> max_memory_per_job qc"
    by blast
  from default_queue_floors [OF q] c m
  have "a_cpus v \<le> max_cpu_per_job qc \<and> a_memory_gb v \<le> max_memory_per_job qc" by auto
  with q w show ?thesis by (simp add: within_caps_def)
qed

theorem allocation_within_caps_witness:
  "fst (allocate_resources default_config None ''t'' sample_job empty_history)
     = Inr sample_allocation
   \<and> map_of (queues default_config) ''long''
       = Some \<lparr>max_jobs = 20, max_cpu_per_job = 8, max_memory_per_job = 128,
           max_walltime_hours = 720, cost_per_cpu_hour = Some 0.05, q_priority = 3,
           speed_factor = 0.7\<rparr>
   \<and> a_walltime_hours sample_allocation \<le> 720 \<and> a_cpus sample_allocation \<le> 8
   \<and> a_memory_gb sample_allocation \<le> 128"
proof -
  have run: "fst (allocate_resources default_config None ''t'' sample_job empty_history)
               = Inr sample_allocation"
    by code_simp
  have q: "map_of (queues default_config) ''long''
       = Some \<lparr>max_jobs = 20, max_cpu_per_job = 8, max_memory_per_job = 128,
           max_walltime_hours = 720, cost_per_cpu_hour = Some 0.05, q_priority = 3,
           speed_factor = 0.7\<rparr>"
    by (simp add: default_config_def default_queues_def)
  have nm: "a_queue sample_allocation = ''long''" by (simp add: sample_allocation_def)
  from allocation_within_caps [OF run] show ?thesis
    using run q nm by auto
qed

text \<open>With a 4 GB memory cap the corrective pass returns 8 GB.\<close>

theorem allocation_caps_counterexample:
  "fst (allocate_resources site_config None ''t'' small_job empty_history)
     = Inr \<lparr>a_cpus = 32, a_memory_gb = 8, a_walltime_hours = 10, a_queue = ''small'',
            estimated_cost = 322, estimated_duration_hours = 5 / 32,
            success_probability = 19 / 20\<rparr>
   \<and> map_option max_memory_per_job (map_of (queues site_config) ''small'') = Some 4"
  by code_simp

section \<open>Properties of the Performance Predictor\<close>

text \<open>
  Claim C8, as the code has it.  For a nonzero cpu count the predicted duration is
  \<open>storage_gb / (cpus \<times> 0.1)\<close> times a factor from the predictor's own table (normal
  1.0, hiprio 0.7, long 1.5, gpu 0.5, any other queue 1.0); the \<^verbatim>\<open>speed_factor\<close> of
  the configuration is not read.
\<close>

theorem duration_formula:
  "c \<noteq> 0 \<Longrightarrow>
   predict_job_duration r c m q =
     Inr (storage_gb r / (real_of_int c * 0.1) *
          (if q = ''normal'' then 1.0 else if q = ''hiprio'' then 0.7
           else if q = ''long'' then 1.5 else if q = ''gpu'' then 0.5 else 1.0))"
  by (simp add: predict_job_duration_def get_queue_speed_factor_def queue_factors_def)

theorem duration_formula_witness:
  "(8::int) \<noteq> 0 \<and> predict_job_duration sample_job 8 128 ''long'' = Inr (75 / 8)"
  using duration_formula [of 8 sample_job 128 "''long''"]
  by (simp add: sample_job_def)

text \<open>On the queue hiprio the code predicts 35/8 hours where the formula with the
  configured \<^verbatim>\<open>speed_factor\<close> 1.5 gives 75/8.\<close>

theorem duration_counterexample:
  "predict_job_duration sample_job 8 128 ''hiprio'' = Inr (35 / 8)
   \<and> spec_predict_duration default_config sample_job 8 ''hiprio'' = Some (75 / 8)"
  by code_simp

section \<open>Properties of the Chunk Sizing Engine\<close>

lemma balanced_lookup:
  "map_of (chunk_strategies default_config) ''balanced''
     = Some \<lparr>max_chunk_size = 1000, storage_threshold = 0.90, s_priority = ''balanced''\<rparr>"
  by (simp add: default_config_def default_strategies_def)

lemma default_capacity: "get_total_queue_capacity default_config = 180"
  by (simp add: get_total_queue_capacity_def default_config_def default_queues_def)

lemma py_int_ge: "real_of_int n \<le> x \<Longrightarrow> 0 \<le> n \<Longrightarrow> n \<le> py_int x"
  by (simp add: py_int_def le_floor_iff)

lemma predict_ignores_telemetry:
  "predict_optimal_chunk_size (h\<lparr>resource_usage := u\<rparr>) total_samples strategy
     = predict_optimal_chunk_size h total_samples strategy"
  by (simp add: predict_optimal_chunk_size_def)

lemma chunk_10000_form:
  "fst (calculate_optimal_chunk_size default_config (Some r) h 10000 ''balanced'')
     = Inr (max (min (py_int (storage_free_gb r * 0.90 / 0.15))
                  (min (180 * 1000)
                    (min (cpu_available r * 20)
                      (min 500
                        (min (predict_optimal_chunk_size h 10000 ''balanced'') 1000))))) 100)"
proof -
  have co: "calculate_cost_optimal_chunk_size 10000 = 500"
    by (simp add: calculate_cost_optimal_chunk_size_def)
  show ?thesis
    unfolding calculate_optimal_chunk_size_def get_current_resources_def
    by (simp only: option.case prod.case balanced_lookup Let_def default_capacity co
        predict_ignores_telemetry chunk_strategy.simps fst_conv)
qed

text \<open>
  Claim C4, as the code has it.  For 10000 items and the balanced strategy of the default
  configuration the chunk size never exceeds 500 when telemetry is available, because
  the cost-optimal term \<open>min 2000 (max 500 (10000 div 20))\<close> is 500; it is exactly 500
  with at least 84 GB of free storage, at least 25 available cpus and a job history that
  predicts at least 500 (an empty history predicts 1000).  The strategy cap of 1000 does
  not bind.
\<close>

theorem chunk_10000_is_500:
  "(\<exists>n. fst (calculate_optimal_chunk_size default_config (Some r) h 10000 ''balanced'') = Inr n
        \<and> 100 \<le> n \<and> n \<le> 500)
   \<and> (84 \<le> storage_free_gb r \<and> 25 \<le> cpu_available r
        \<and> 500 \<le> predict_optimal_chunk_size h 10000 ''balanced'' \<longrightarrow>
        fst (calculate_optimal_chunk_size default_config (Some r) h 10000 ''balanced'') = Inr 500)
   \<and> (job_history h = [] \<longrightarrow> predict_optimal_chunk_size h 10000 ''balanced'' = 1000)"
proof (intro conjI impI)
  show "\<exists>n. fst (calculate_optimal_chunk_size default_config (Some r) h 10000 ''balanced'') = Inr n
        \<and> 100 \<le> n \<and> n \<le> 500"
    unfolding chunk_10000_form by (simp add: min_le_iff_disj)
next
  assume a: "84 \<le> storage_free_gb r \<and> 25 \<le> cpu_available r
        \<and> 500 \<le> predict_optimal_chunk_size h 10000 ''balanced''"
  have st: "500 \<le> py_int (storage_free_gb r * 0.90 / 0.15)"
    using a by (intro py_int_ge) simp_all
  have cpu: "500 \<le> cpu_available r * 20" using a by simp
  show "fst (calculate_optimal_chunk_size default_config (Some r) h 10000 ''balanced'') = Inr 500"
    unfolding chunk_10000_form using st cpu a by simp
next
  assume "job_history h = []"
  then show "predict_optimal_chunk_size h 10000 ''balanced'' = 1000"
    by (simp add: predict_optimal_chunk_size_def)
qed

theorem chunk_10000_is_500_witness:
  "(84 \<le> storage_free_gb ample \<and> 25 \<le> cpu_available ample
      \<and> 500 \<le> predict_optimal_chunk_size empty_history 10000 ''balanced'')
   \<and> job_history empty_history = []
   \<and> fst (calculate_optimal_chunk_size default_config (Some ample) empty_history 10000 ''balanced'')
       = Inr 500"
proof -
  have a: "84 \<le> storage_free_gb ample \<and> 25 \<le> cpu_available ample" by (simp add: ample_def)
  have c: "job_history empty_history = []" by (simp add: empty_history_def)
  from chunk_10000_is_500 [of ample empty_history] a c show ?thesis by simp
qed

theorem chunk_10000_counterexample:
  "fst (calculate_optimal_chunk_size default_config (Some ample) empty_history 10000 ''balanced'')
     \<noteq> Inr 1000"
  by code_simp

lemma min6_le: "min a (min b (min c (min d (min e (m::int))))) \<le> m"
  by (simp add: min_le_iff_disj)

lemma chunk_size_closed_form:
  assumes "map_of (chunk_strategies cfg) strategy = Some sc"
  shows "fst (calculate_optimal_chunk_size cfg (Some r) h total_samples strategy)
           = Inr (max (min (py_int (storage_free_gb r * storage_threshold sc / 0.15))
                        (min (get_total_queue_capacity cfg * max_chunk_size sc)
                          (min (cpu_available r * 20)
                            (min (calculate_cost_optimal_chunk_size total_samples)
                              (min (predict_optimal_chunk_size
                                      (h\<lparr>resource_usage := append_capped (resource_usage h) r\<rparr>)
                                      total_samples strategy)
                                 (max_chunk_size sc)))))) 100)"
  unfolding calculate_optimal_chunk_size_def get_current_resources_def
  by (simp only: option.case prod.case assms Let_def fst_conv)

text \<open>
  Claim C5, as the code has it.  With a telemetry sample, and for a configured strategy
  whose \<^verbatim>\<open>max_chunk_size\<close> is at least 100, the chunk size lies between 100 and that
  maximum, for every number of items and every history.  Without telemetry the function
  returns the \<^verbatim>\<open>max_chunk_size\<close> of the strategy named balanced, whatever strategy was
  asked for.
\<close>

theorem chunk_bounds:
  "(strategy_max cfg strategy = Some mx \<and> 100 \<le> mx \<longrightarrow>
      (\<exists>n. fst (calculate_optimal_chunk_size cfg (Some r) h total_samples strategy) = Inr n
           \<and> 100 \<le> n \<and> n \<le> mx))
   \<and> (strategy_max cfg ''balanced'' = Some b \<longrightarrow>
        fst (calculate_optimal_chunk_size cfg None h total_samples strategy) = Inr b)"
proof (intro conjI impI)
  assume a: "strategy_max cfg strategy = Some mx \<and> 100 \<le> mx"
  then obtain sc where sc: "map_of (chunk_strategies cfg) strategy = Some sc"
    and mx: "max_chunk_size sc = mx"
    by (auto simp: strategy_max_def)
  define x where "x = min (py_int (storage_free_gb r * storage_threshold sc / 0.15))
                        (min (get_total_queue_capacity cfg * max_chunk_size sc)
                          (min (cpu_available r * 20)
                            (min (calculate_cost_optimal_chunk_size total_samples)
                              (min (predict_optimal_chunk_size
                                      (h\<lparr>resource_usage := append_capped (resource_usage h) r\<rparr>)
                                      total_samples strategy)
                                 (max_chunk_size sc)))))"
  have x: "fst (calculate_optimal_chunk_size cfg (Some r) h total_samples strategy)
          = Inr (max x 100)"
    unfolding x_def by (rule chunk_size_closed_form [OF sc])
  have le: "x \<le> mx"
    unfolding x_def mx [symmetric] by (rule min6_le)
  from a le have "100 \<le> max x 100 \<and> max x 100 \<le> mx" by simp
  with x show "\<exists>n. fst (calculate_optimal_chunk_size cfg (Some r) h total_samples strategy) = Inr n
           \<and> 100 \<le> n \<and> n \<le> mx" by blast
next
  assume "strategy_max cfg ''balanced'' = Some b"
  then show "fst (calculate_optimal_chunk_size cfg None h total_samples strategy) = Inr b"
    by (auto simp: strategy_max_def calculate_optimal_chunk_size_def get_current_resources_def)
qed

theorem chunk_bounds_witness:
  "(strategy_max default_config ''storage_optimized'' = Some 500 \<and> (100::int) \<le> 500)
   \<and> (\<exists>n. fst (calculate_optimal_chunk_size default_config (Some ample) empty_history 7
                 ''storage_optimized'') = Inr n
           \<and> 100 \<le> n \<and> n \<le> 500)
   \<and> strategy_max default_config ''balanced'' = Some 1000
   \<and> fst (calculate_optimal_chunk_size default_config None empty_history 7 ''storage_optimized'')
       = Inr 1000"
proof -
  have a: "strategy_max default_config ''storage_optimized'' = Some 500" by code_simp
  have b: "strategy_max default_config ''balanced'' = Some 1000" by code_simp
  show ?thesis
    using a b chunk_bounds [of default_config "''storage_optimized''" 500 ample empty_history 7 1000]
    by simp
qed

text \<open>Without telemetry the strategy storage\_optimized, whose maximum is 500, gets 1000.\<close>

theorem chunk_bounds_counterexample:
  "fst (calculate_optimal_chunk_size default_config None empty_history 10000 ''storage_optimized'')
     = Inr 1000
   \<and> strategy_max default_config ''storage_optimized'' = Some 500"
  by code_simp

section \<open>Properties of the StorageFailurePredictor\<close>

text \<open>
  Claim C1, as the code has it.  For usage 0.996 and growth rate 0.05, with at most 5 IO
  errors and a disk-health check that returns, \<^verbatim>\<open>predict_storage_failure\<close> reports
  failure probability 0.7 and risk level HIGH: the usage term 0.7 alone, because the
  growth term 0.4 is added only when the growth rate exceeds 0.1; and 0.7 is not above
  0.8.  The time to failure is 0.
\<close>

theorem storage_scenario:
  "io_errors \<le> 5 \<Longrightarrow>
   predict_storage_failure io_errors (Inr dh) 0.996 0.05
     = \<lparr>sp_error = None, failure_probability = 0.7, time_to_failure_hours = Finite 0,
        risk_level = ''HIGH'', sp_disk_health = dh\<rparr>"
  by (simp add: predict_storage_failure_def calculate_failure_probability_def
      estimate_time_to_failure_def storage_get_risk_level_def Let_def)

theorem storage_scenario_witness:
  "(0::int) \<le> 5 \<and>
   predict_storage_failure 0 (Inr healthy_disk) 0.996 0.05
     = \<lparr>sp_error = None, failure_probability = 0.7, time_to_failure_hours = Finite 0,
        risk_level = ''HIGH'', sp_disk_health = healthy_disk\<rparr>"
  using storage_scenario [of 0 healthy_disk] by simp

text \<open>The scenario of the specification: neither CRITICAL nor a probability of 0.9.\<close>

theorem storage_scenario_counterexample:
  "risk_level (predict_storage_failure 0 (Inr healthy_disk) 0.996 0.05) \<noteq> ''CRITICAL''
   \<and> \<not> 0.9 \<le> failure_probability (predict_storage_failure 0 (Inr healthy_disk) 0.996 0.05)"
  by (simp add: predict_storage_failure_def calculate_failure_probability_def
      estimate_time_to_failure_def storage_get_risk_level_def Let_def)

section \<open>Time to exhaustion at critical usage\<close>

text \<open>
  Claim C7, as the code has it.  At a usage of 0.95 or more the three per-resource
  estimates of \<^verbatim>\<open>ResourceExhaustionPredictor\<close> are 0.1 hours.  The storage failure
  estimate is \<^verbatim>\<open>float('inf')\<close> for a growth rate that is not positive, and
  \<open>max 0 ((1 - u - 0.02) / g)\<close> otherwise: 0 from a usage of 0.98 on, positive below.
\<close>

theorem time_at_critical_usage:
  "0.95 \<le> u \<Longrightarrow>
     estimate_cpu_exhaustion_time u a = 0.1
     \<and> estimate_memory_exhaustion_time u m = 0.1
     \<and> estimate_storage_exhaustion_time u f = 0.1
     \<and> (g \<le> 0 \<longrightarrow> estimate_time_to_failure u g = Infinity)
     \<and> (0 < g \<longrightarrow> estimate_time_to_failure u g = Finite (max 0 ((1 - u - 0.02) / g)))
     \<and> (0 < g \<and> 0.98 \<le> u \<longrightarrow> estimate_time_to_failure u g = Finite 0)
     \<and> (0 < g \<and> u < 0.98 \<longrightarrow> (\<exists>t. estimate_time_to_failure u g = Finite t \<and> 0 < t))"
proof -
  assume u: "0.95 \<le> u"
  have a: "estimate_cpu_exhaustion_time u a = 0.1"
    using u by (simp add: estimate_cpu_exhaustion_time_def)
  have b: "estimate_memory_exhaustion_time u m = 0.1"
    using u by (simp add: estimate_memory_exhaustion_time_def)
  have c: "estimate_storage_exhaustion_time u f = 0.1"
    using u by (simp add: estimate_storage_exhaustion_time_def)
  have d: "g \<le> 0 \<longrightarrow> estimate_time_to_failure u g = Infinity"
    by (simp add: estimate_time_to_failure_def)
  have e: "0 < g \<longrightarrow> estimate_time_to_failure u g = Finite (max 0 ((1 - u - 0.02) / g))"
    by (simp add: estimate_time_to_failure_def Let_def)
  have f: "0 < g \<and> 0.98 \<le> u \<longrightarrow> estimate_time_to_failure u g = Finite 0"
  proof
    assume h: "0 < g \<and> 0.98 \<le> u"
    then have "(1 - u - 0.02) / g \<le> 0" by (simp add: divide_le_0_iff)
    with h e show "estimate_time_to_failure u g = Finite 0" by (simp add: max_def)
  qed
  have g: "0 < g \<and> u < 0.98 \<longrightarrow> (\<exists>t. estimate_time_to_failure u g = Finite t \<and> 0 < t)"
  proof
    assume h: "0 < g \<and> u < 0.98"
    then have "0 < (1 - u - 0.02) / g" by simp
    with h e show "\<exists>t. estimate_time_to_failure u g = Finite t \<and> 0 < t" by (simp add: max_def)
  qed
  from a b c d e f g show ?thesis by blast
qed

theorem time_at_critical_usage_witness:
  "(0.95::real) \<le> 0.996
   \<and> estimate_cpu_exhaustion_time 0.996 57 = 0.1
   \<and> estimate_storage_exhaustion_time 0.996 (PInt 2061) = 0.1
   \<and> estimate_time_to_failure 0.996 0 = Infinity
   \<and> estimate_time_to_failure 0.996 0.05 = Finite 0"
proof -
  have u: "(0.95::real) \<le> 0.996" by simp
  from time_at_critical_usage [OF u, of 57 PNone "PInt 2061" 0]
       time_at_critical_usage [OF u, of 57 PNone "PInt 2061" "0.05"]
  show ?thesis using u by simp
qed

text \<open>A usage of 0.996 growing at 0.05 per hour has a time to failure of exactly 0.\<close>

theorem time_never_zero_counterexample:
  "(0.95::real) \<le> 0.996 \<and> (0::real) \<le> 0.05 \<and> estimate_time_to_failure 0.996 0.05 = Finite 0"
  by (simp add: estimate_time_to_failure_def Let_def)

section \<open>Properties of the ResourceExhaustionPredictor\<close>

lemma get_risk_level_range: "get_risk_level p \<in> set risk_levels"
  by (simp add: get_risk_level_def risk_levels_def)

lemma available_of_raises:
  "(\<exists>e. available_of B a = Inl e) \<longleftrightarrow> (a = PFloat PosInf \<or> a = PFloat NegInf)"
proof (cases a)
  case (PFloat f)
  then show ?thesis
    by (cases f) (simp_all add: available_of_def catch_value_error_def)
next
  case (PStr s)
  then show ?thesis
    by (simp add: available_of_def catch_value_error_def split: option.splits)
qed (simp_all add: available_of_def catch_value_error_def)

lemma gb_of_raises:
  "(\<exists>e. gb_of B a = Inl e) \<longleftrightarrow> (\<exists>i. a = PInt i \<and> \<not> \<bar>real_of_int i\<bar> < float_limit)"
proof (cases a)
  case (PInt i)
  then show ?thesis
    by (simp add: gb_of_def catch_value_error_def float_of_int_def)
next
  case (PStr s)
  then show ?thesis
    by (simp add: gb_of_def catch_value_error_def split: option.splits)
qed (simp_all add: gb_of_def catch_value_error_def)

lemma cpu_prediction_cases:
  "if cpu_unusable x then unknown_with_error (predict_cpu_exhaustion B x)
   else graded (predict_cpu_exhaustion B x)"
proof (cases x)
  case (PDict cpu_info)
  show ?thesis
  proof (cases "available_of B (dict_get cpu_info ''available'' (PInt 1))")
    case (Inl e)
    then have "cpu_unusable x" using available_of_raises PDict by (metis cpu_unusable.simps(1))
    then show ?thesis using Inl PDict
      by (simp add: predict_cpu_body_def unknown_with_error_def cpu_error_result_def)
  next
    case (Inr n)
    then have "\<not> cpu_unusable x" using available_of_raises PDict
      by (metis cpu_unusable.simps(1) sum.distinct(1))
    then show ?thesis using Inr PDict get_risk_level_range
      by (simp add: predict_cpu_body_def graded_def Let_def)
  qed
qed (simp_all add: unknown_with_error_def cpu_error_result_def)


lemma memory_prediction_cases:
  "if gb_unusable ''available_gb'' x then unknown_with_error (predict_memory_exhaustion B x)
   else graded (predict_memory_exhaustion B x)"
proof (cases x)
  case (PDict info)
  show ?thesis
  proof (cases "gb_of B (dict_get info ''available_gb'' (PInt 1))")
    case (Inl e)
    then have "\<exists>i. dict_get info ''available_gb'' (PInt 1) = PInt i
                 \<and> \<not> \<bar>real_of_int i\<bar> < float_limit"
      using gb_of_raises by blast
    then have "gb_unusable ''available_gb'' x" using PDict by auto
    then show ?thesis using Inl PDict
      by (simp add: predict_memory_body_def unknown_with_error_def memory_error_result_def)
  next
    case (Inr g)
    then have "\<not> (\<exists>i. dict_get info ''available_gb'' (PInt 1) = PInt i
                 \<and> \<not> \<bar>real_of_int i\<bar> < float_limit)"
      using gb_of_raises [of B "dict_get info ''available_gb'' (PInt 1)"] by simp
    then have "\<not> gb_unusable ''available_gb'' x" using PDict
      by (auto split: pyval.splits)
    then show ?thesis using Inr PDict get_risk_level_range
      by (simp add: predict_memory_body_def graded_def Let_def)
  qed
qed (simp_all add: unknown_with_error_def memory_error_result_def)

lemma storage_prediction_cases:
  "if gb_unusable ''free_gb'' x then unknown_with_error (predict_storage_exhaustion B x)
   else graded (predict_storage_exhaustion B x)"
proof (cases x)
  case (PDict info)
  show ?thesis
  proof (cases "gb_of B (dict_get info ''free_gb'' (PInt 1))")
    case (Inl e)
    then have "\<exists>i. dict_get info ''free_gb'' (PInt 1) = PInt i
                 \<and> \<not> \<bar>real_of_int i\<bar> < float_limit"
      using gb_of_raises by blast
    then have "gb_unusable ''free_gb'' x" using PDict by auto
    then show ?thesis using Inl PDict
      by (simp add: predict_storage_body_def unknown_with_error_def storage_error_result_def)
  next
    case (Inr g)
    then have "\<not> (\<exists>i. dict_get info ''free_gb'' (PInt 1) = PInt i
                 \<and> \<not> \<bar>real_of_int i\<bar> < float_limit)"
      using gb_of_raises [of B "dict_get info ''free_gb'' (PInt 1)"] by simp
    then have "\<not> gb_unusable ''free_gb'' x" using PDict
      by (auto split: pyval.splits)
    then show ?thesis using Inr PDict get_risk_level_range
      by (simp add: predict_storage_body_def graded_def Let_def)
  qed
qed (simp_all add: unknown_with_error_def storage_error_result_def)

lemma queue_entry_cases: "entry_ok B x (queue_entry B x)"
proof (cases x)
  case (PDict queue_data)
  obtain p r m where c: "queue_counts B queue_data = (p, r, m)"
    by (cases "queue_counts B queue_data") auto
  show ?thesis
  proof (cases "\<bar>real_of_int (max 0 r + max 0 p) / real_of_int (max 1 m)\<bar> < float_limit")
    case True
    then show ?thesis using c PDict get_risk_level_range
      by (simp add: entry_ok_def queue_entry_body_def int_truediv_def graded_def Let_def)
  next
    case False
    then show ?thesis using c PDict
      by (simp add: entry_ok_def queue_entry_body_def int_truediv_def error_only_def Let_def)
  qed
qed (simp_all add: entry_ok_def error_only_def)

lemma predict_field_ok:
  assumes "\<And>x. if unusable x then unknown_with_error (predictor x) else graded (predictor x)"
  shows "field_prediction_ok unusable (map_of d k) (Some (predict_field d k predictor msg))"
proof (cases "map_of d k")
  case None
  then show ?thesis by (simp add: field_prediction_ok_def predict_field_def error_only_def)
next
  case (Some x)
  then show ?thesis using assms [of x]
    by (cases x) (auto simp: field_prediction_ok_def predict_field_def error_only_def)
qed

lemma queue_field_ok:
  "queue_prediction_ok B (map_of d ''lsf'')
     (Some (predict_field d ''lsf'' (predict_queue_exhaustion B) ''Queue data not available''))"
proof (cases "map_of d ''lsf''")
  case None
  then show ?thesis by (simp add: queue_prediction_ok_def predict_field_def error_only_def)
next
  case (Some x)
  show ?thesis
  proof (cases x)
    case (PDict queue_info)
    have names: "map fst (map (\<lambda>(queue_name, queue_data). (queue_name, queue_entry B queue_data))
                   queue_info) = map fst queue_info"
      by (induction queue_info) auto
    have entries: "list_all2 (entry_ok B) (map snd queue_info)
                     (map snd (map (\<lambda>(queue_name, queue_data).
                        (queue_name, queue_entry B queue_data)) queue_info))"
      by (induction queue_info) (auto simp: queue_entry_cases)
    show ?thesis using Some PDict names entries
      by (simp add: queue_prediction_ok_def predict_field_def)
  qed (use Some in \<open>simp_all add: queue_prediction_ok_def predict_field_def error_only_def\<close>)
qed


lemma level_of_score_range:
  "level_of_score n = Inr s \<Longrightarrow> s \<in> set (''UNKNOWN'' # risk_levels)"
  by (auto simp: level_of_score_def risk_scores_def risk_levels_def split: if_splits)

lemma assess_level_range:
  "\<exists>s \<in> set (''UNKNOWN'' # risk_levels).
     py_path (assess_overall_risk predictions) [''overall_risk_level''] = Some (PStr s)"
proof (cases "assess_body predictions")
  case (Inl e)
  then show ?thesis by (simp add: assess_overall_risk_def overall_result_def)
next
  case (Inr res)
  then obtain s rs where res: "res = overall_result s rs"
    and s: "s = ''UNKNOWN'' \<or> (\<exists>n. level_of_score n = Inr s)"
    by (auto simp: assess_body_def Let_def split: if_splits sum.splits list.splits)
  from s level_of_score_range have "s \<in> set (''UNKNOWN'' # risk_levels)" by auto
  then show ?thesis using Inr res by (simp add: assess_overall_risk_def overall_result_def)
qed

lemma risks_of_error: "has_key ''error'' p \<Longrightarrow> risks_of_prediction p = []"
  by (cases p) simp_all

lemma assess_all_errors:
  assumes "\<forall>(k, p) \<in> set predictions. has_key ''error'' p"
  shows "py_path (assess_overall_risk predictions) [''overall_risk_level'']
           = Some (PStr ''UNKNOWN'')"
proof -
  have "concat (map (\<lambda>(resource_type, prediction). risks_of_prediction prediction) predictions)
          = []"
    using assms by (induction predictions) (auto simp: risks_of_error)
  then have "assess_body predictions = Inr (overall_result ''UNKNOWN'' [])"
    unfolding assess_body_def Let_def by (simp only: simp_thms if_True)
  then show ?thesis
    by (simp add: assess_overall_risk_def overall_result_def)
qed

text \<open>
  Claim C6, as the code has it.  For every input and every behaviour of the string
  parsers, \<^verbatim>\<open>predict_resource_exhaustion\<close> returns a result (the model has every
  raise of the body and every handler).  When the input is not a dictionary the result
  carries \<^verbatim>\<open>error\<close>, its predictions are empty and its \<^verbatim>\<open>overall_risk_level\<close> is
  UNKNOWN.  When it is a dictionary: the prediction for a cpu, memory or storage field
  that is absent or \<^verbatim>\<open>None\<close> holds \<^verbatim>\<open>error\<close> only; for a field that is unusable it
  holds \<^verbatim>\<open>error\<close> and the \<^verbatim>\<open>risk_level\<close> UNKNOWN; for any other field it holds one of
  the four levels and no \<^verbatim>\<open>error\<close>.  The queue prediction is a lone \<^verbatim>\<open>error\<close> when
  \<^verbatim>\<open>lsf\<close> is absent, \<^verbatim>\<open>None\<close> or not a dictionary; otherwise it has one entry per
  queue, in order, which holds \<^verbatim>\<open>error\<close> only when the entry is unusable and one of
  the four levels and no \<^verbatim>\<open>error\<close> otherwise.  The \<^verbatim>\<open>overall_risk_level\<close> is one of
  the five levels, and it is UNKNOWN when all four predictions hold \<^verbatim>\<open>error\<close>.
\<close>

theorem prediction_flags:
  "((\<forall>d. v \<noteq> PDict d) \<longrightarrow>
       has_key ''error'' (predict_resource_exhaustion B v)
       \<and> py_path (predict_resource_exhaustion B v) [''predictions''] = Some (PDict [])
       \<and> py_path (predict_resource_exhaustion B v) [''overall_risk'', ''overall_risk_level'']
           = Some (PStr ''UNKNOWN''))
   \<and> (\<forall>d. v = PDict d \<longrightarrow>
        field_prediction_ok cpu_unusable (map_of d ''cpu'')
          (py_path (predict_resource_exhaustion B v) [''predictions'', ''cpu''])
        \<and> field_prediction_ok (gb_unusable ''available_gb'') (map_of d ''memory'')
            (py_path (predict_resource_exhaustion B v) [''predictions'', ''memory''])
        \<and> field_prediction_ok (gb_unusable ''free_gb'') (map_of d ''storage'')
            (py_path (predict_resource_exhaustion B v) [''predictions'', ''storage''])
        \<and> queue_prediction_ok B (map_of d ''lsf'')
            (py_path (predict_resource_exhaustion B v) [''predictions'', ''queues''])
        \<and> (\<exists>s \<in> set (''UNKNOWN'' # risk_levels).
              py_path (predict_resource_exhaustion B v) [''overall_risk'', ''overall_risk_level'']
                = Some (PStr s))
        \<and> ((\<forall>k \<in> set [''cpu'', ''memory'', ''storage'', ''queues''].
               prediction_has_error (predict_resource_exhaustion B v) k) \<longrightarrow>
             py_path (predict_resource_exhaustion B v) [''overall_risk'', ''overall_risk_level'']
               = Some (PStr ''UNKNOWN'')))"
proof (cases v)
  case (PDict d)
  have c: "field_prediction_ok cpu_unusable (map_of d ''cpu'')
             (py_path (predict_resource_exhaustion B v) [''predictions'', ''cpu''])"
    unfolding PDict
    using predict_field_ok [of cpu_unusable "predict_cpu_exhaustion B" d "''cpu''"
        "''CPU data not available''", OF cpu_prediction_cases]
    by (simp add: Let_def)
  have m: "field_prediction_ok (gb_unusable ''available_gb'') (map_of d ''memory'')
             (py_path (predict_resource_exhaustion B v) [''predictions'', ''memory''])"
    unfolding PDict
    using predict_field_ok [of "gb_unusable ''available_gb''" "predict_memory_exhaustion B" d
        "''memory''" "''Memory data not available''", OF memory_prediction_cases]
    by (simp add: Let_def)
  have s: "field_prediction_ok (gb_unusable ''free_gb'') (map_of d ''storage'')
             (py_path (predict_resource_exhaustion B v) [''predictions'', ''storage''])"
    unfolding PDict
    using predict_field_ok [of "gb_unusable ''free_gb''" "predict_storage_exhaustion B" d
        "''storage''" "''Storage data not available''", OF storage_prediction_cases]
    by (simp add: Let_def)
  have q: "queue_prediction_ok B (map_of d ''lsf'')
             (py_path (predict_resource_exhaustion B v) [''predictions'', ''queues''])"
    unfolding PDict using queue_field_ok [of B d] by (simp add: Let_def)
  have r: "\<exists>s \<in> set (''UNKNOWN'' # risk_levels).
              py_path (predict_resource_exhaustion B v) [''overall_risk'', ''overall_risk_level'']
                = Some (PStr s)"
    unfolding PDict using assess_level_range by (simp add: Let_def)
  have u: "(\<forall>k \<in> set [''cpu'', ''memory'', ''storage'', ''queues''].
               prediction_has_error (predict_resource_exhaustion B v) k) \<longrightarrow>
             py_path (predict_resource_exhaustion B v) [''overall_risk'', ''overall_risk_level'']
               = Some (PStr ''UNKNOWN'')"
  proof
    assume a: "\<forall>k \<in> set [''cpu'', ''memory'', ''storage'', ''queues''].
               prediction_has_error (predict_resource_exhaustion B v) k"
    then have "\<forall>(k, p) \<in> set
        [(''cpu'', predict_field d ''cpu'' (predict_cpu_exhaustion B) ''CPU data not available''),
         (''memory'', predict_field d ''memory'' (predict_memory_exhaustion B)
                        ''Memory data not available''),
         (''storage'', predict_field d ''storage'' (predict_storage_exhaustion B)
                         ''Storage data not available''),
         (''queues'', predict_field d ''lsf'' (predict_queue_exhaustion B)
                        ''Queue data not available'')]. has_key ''error'' p"
      unfolding PDict by (simp add: prediction_has_error_def Let_def)
    from assess_all_errors [OF this]
    show "py_path (predict_resource_exhaustion B v) [''overall_risk'', ''overall_risk_level'']
               = Some (PStr ''UNKNOWN'')"
      unfolding PDict by (simp add: Let_def)
  qed
  from c m s q r u show ?thesis using PDict by simp
qed (simp_all add: no_data_result_def)

text \<open>The run of \<^verbatim>\<open>main()\<close>: 55 percent CPU usage and a queue at 50 of 100 jobs are
  LOW, 99.6 percent storage usage is CRITICAL, and so is the overall risk.\<close>

lemma test_prediction:
  "predict_resource_exhaustion no_parse test_resources =
     PDict
      [(''predictions'',
        PDict
         [(''cpu'',
           PDict
            [(''exhaustion_probability'', PFloat (Fin 0)),
             (''time_to_exhaustion_hours'', PFloat (Fin (48 / 5))),
             (''current_usage'', PFloat (Fin (11 / 20))),
             (''available_cores'', PInt 57), (''risk_level'', PStr ''LOW'')]),
          (''memory'',
           PDict
            [(''exhaustion_probability'', PFloat (Fin 0)),
             (''time_to_exhaustion_hours'', PFloat (Fin (5436 / 125))),
             (''current_usage'', PFloat (Fin (11 / 250))),
             (''available_gb'', PFloat (Fin 1925)),
             (''risk_level'', PStr ''LOW'')]),
          (''storage'',
           PDict
            [(''exhaustion_probability'', PFloat (Fin (19 / 20))),
             (''time_to_exhaustion_hours'', PFloat (Fin (1 / 10))),
             (''current_usage'', PFloat (Fin (249 / 250))),
             (''free_gb'', PFloat (Fin 2061)),
             (''risk_level'', PStr ''CRITICAL'')]),
          (''queues'',
           PDict
            [(''normal'',
              PDict
               [(''exhaustion_probability'', PFloat (Fin 0)),
                (''utilization'', PFloat (Fin (1 / 2))),
                (''pending_jobs'', PInt 50), (''running_jobs'', PInt 0),
                (''max_jobs'', PInt 100), (''risk_level'', PStr ''LOW'')])])]),
       (''overall_risk'',
        PDict
         [(''overall_risk_level'', PStr ''CRITICAL''),
          (''resource_risks'',
           PList [PStr ''LOW'', PStr ''LOW'', PStr ''CRITICAL'', PStr ''LOW'']),
          (''critical_resources'', PList [PStr ''CRITICAL''])])]"
  by code_simp

lemma malformed_prediction:
  "predict_resource_exhaustion no_parse malformed_resources =
     PDict
      [(''predictions'',
        PDict
         [(''cpu'', PDict [(''error'', PStr ''CPU data not available'')]),
          (''memory'',
           PDict
            [(''error'', PStr ''Invalid memory data format''),
             (''exhaustion_probability'', PFloat (Fin 0)),
             (''time_to_exhaustion_hours'', PFloat (Fin 0)),
             (''current_usage'', PFloat (Fin 0)), (''available_gb'', PInt 0),
             (''risk_level'', PStr ''UNKNOWN'')]),
          (''storage'',
           PDict
            [(''exhaustion_probability'', PFloat (Fin 0)),
             (''time_to_exhaustion_hours'', PFloat (Fin (798 / 5))),
             (''current_usage'', PFloat (Fin 0)), (''free_gb'', PFloat (Fin 1)),
             (''risk_level'', PStr ''LOW'')]),
          (''queues'',
           PDict
            [(''normal'', PDict [(''error'', PStr ''Invalid queue data'')]),
             (''long'',
              PDict
               [(''exhaustion_probability'', PFloat (Fin 0)),
                (''utilization'', PFloat (Fin 0)), (''pending_jobs'', PInt 0),
                (''running_jobs'', PInt 0), (''max_jobs'', PInt 100),
                (''risk_level'', PStr ''LOW'')])])]),
       (''overall_risk'',
        PDict
         [(''overall_risk_level'', PStr ''LOW''),
          (''resource_risks'', PList [PStr ''LOW'', PStr ''LOW'']),
          (''critical_resources'', PList [])])]"
  by code_simp

lemma empty_prediction_errors:
  "prediction_has_error (predict_resource_exhaustion no_parse (PDict [])) ''cpu''
   \<and> prediction_has_error (predict_resource_exhaustion no_parse (PDict [])) ''memory''
   \<and> prediction_has_error (predict_resource_exhaustion no_parse (PDict [])) ''storage''
   \<and> prediction_has_error (predict_resource_exhaustion no_parse (PDict [])) ''queues''"
  by (simp add: prediction_has_error_def predict_field_def Let_def)

theorem prediction_flags_witness:
  "malformed_resources = PDict malformed_fields
   \<and> field_prediction_ok cpu_unusable (map_of malformed_fields ''cpu'')
       (py_path (predict_resource_exhaustion no_parse malformed_resources)
          [''predictions'', ''cpu''])
   \<and> field_prediction_ok (gb_unusable ''available_gb'') (map_of malformed_fields ''memory'')
       (py_path (predict_resource_exhaustion no_parse malformed_resources)
          [''predictions'', ''memory''])
   \<and> field_prediction_ok (gb_unusable ''free_gb'') (map_of malformed_fields ''storage'')
       (py_path (predict_resource_exhaustion no_parse malformed_resources)
          [''predictions'', ''storage''])
   \<and> queue_prediction_ok no_parse (map_of malformed_fields ''lsf'')
       (py_path (predict_resource_exhaustion no_parse malformed_resources)
          [''predictions'', ''queues''])
   \<and> py_path (predict_resource_exhaustion no_parse malformed_resources)
         [''predictions'', ''memory'', ''risk_level''] = Some (PStr ''UNKNOWN'')
   \<and> py_path (predict_resource_exhaustion no_parse malformed_resources)
         [''predictions'', ''storage'', ''risk_level''] = Some (PStr ''LOW'')
   \<and> py_path (predict_resource_exhaustion no_parse malformed_resources)
         [''predictions'', ''queues'', ''long'', ''risk_level''] = Some (PStr ''LOW'')
   \<and> py_path (predict_resource_exhaustion no_parse malformed_resources)
         [''overall_risk'', ''overall_risk_level''] = Some (PStr ''LOW'')
   \<and> has_key ''error'' (predict_resource_exhaustion no_parse PNone)
   \<and> py_path (predict_resource_exhaustion no_parse PNone)
         [''overall_risk'', ''overall_risk_level''] = Some (PStr ''UNKNOWN'')
   \<and> py_path (predict_resource_exhaustion no_parse (PDict []))
         [''overall_risk'', ''overall_risk_level''] = Some (PStr ''UNKNOWN'')"
proof -
  note dict = prediction_flags [where v = malformed_resources and B = no_parse,
      THEN conjunct2, rule_format, OF malformed_resources_def]
  have nodict: "\<forall>d. PNone \<noteq> PDict d" by simp
  note none = prediction_flags [where v = PNone and B = no_parse,
      THEN conjunct1, THEN mp, OF nodict]
  have all_err: "\<forall>k \<in> set [''cpu'', ''memory'', ''storage'', ''queues''].
      prediction_has_error (predict_resource_exhaustion no_parse (PDict [])) k"
    using empty_prediction_errors by simp
  have empty: "py_path (predict_resource_exhaustion no_parse (PDict []))
         [''overall_risk'', ''overall_risk_level''] = Some (PStr ''UNKNOWN'')"
    using prediction_flags [where v = "PDict []" and B = no_parse] all_err by blast
  from dict none empty show ?thesis
    by (simp add: malformed_prediction malformed_resources_def [symmetric])
qed

text \<open>The prediction for the absent CPU field and the entry of the \<^verbatim>\<open>None\<close> queue
  hold \<^verbatim>\<open>error\<close> only.\<close>

theorem prediction_flags_counterexample:
  "py_path (predict_resource_exhaustion no_parse malformed_resources) [''predictions'', ''cpu'']
     = Some (PDict [(''error'', PStr ''CPU data not available'')])
   \<and> py_path (predict_resource_exhaustion no_parse malformed_resources)
         [''predictions'', ''cpu'', ''risk_level''] = None
   \<and> py_path (predict_resource_exhaustion no_parse malformed_resources)
         [''predictions'', ''queues'', ''normal'']
       = Some (PDict [(''error'', PStr ''Invalid queue data'')])
   \<and> py_path (predict_resource_exhaustion no_parse malformed_resources)
         [''predictions'', ''queues'', ''normal'', ''risk_level''] = None"
  by (simp add: malformed_prediction)

end
